theory Spec2Isabelle
  imports Main "HOL-Library.Word" "HOL-Library.Sublist"
begin

section \<open>JavaScript strings\<close>

text \<open>
  A JavaScript string is a sequence of UTF-16 code units. Literals of the source are
  written \<open>js ''...''\<close>.
\<close>

type_synonym code_unit = "16 word"
type_synonym jstring = "code_unit list"

definition js :: "string \<Rightarrow> jstring" where
  "js s = map of_char s"

text \<open>
  The characters matched by the regular expression class \<open>\s\<close> and removed by
  \<open>String.prototype.trim\<close>: ECMAScript's WhiteSpace and LineTerminator productions.
\<close>

definition isWhiteSpace :: "code_unit \<Rightarrow> bool" where
  "isWhiteSpace c \<longleftrightarrow>
     c \<in> set [0x0009, 0x000A, 0x000B, 0x000C, 0x000D, 0x0020, 0x00A0, 0x1680,
              0x2028, 0x2029, 0x202F, 0x205F, 0x3000, 0xFEFF]
     \<or> (0x2000 \<le> c \<and> c \<le> 0x200A)"

text \<open>The class \<open>\d\<close>: the ten ASCII digits.\<close>

definition isDigit :: "code_unit \<Rightarrow> bool" where
  "isDigit c \<longleftrightarrow> 0x30 \<le> c \<and> c \<le> 0x39"

text \<open>\<open>s.trim()\<close>\<close>

definition trim :: "jstring \<Rightarrow> jstring" where
  "trim s = rev (dropWhile isWhiteSpace (rev (dropWhile isWhiteSpace s)))"

text \<open>\<open>s.replace(/\s/g, '')\<close>: every match of \<open>\s\<close> is deleted.\<close>

fun replace_ws :: "jstring \<Rightarrow> jstring" where
  "replace_ws [] = []"
| "replace_ws (c # cs) = (if isWhiteSpace c then replace_ws cs else c # replace_ws cs)"

text \<open>
  \<open>/^\d{n}$/.test(s)\<close>: the anchors tie the match to the whole input (no multiline
  flag), so the matcher consumes one digit per repetition and must end at the end of \<open>s\<close>.
\<close>

fun test_digits :: "nat \<Rightarrow> jstring \<Rightarrow> bool" where
  "test_digits 0 s = (s = [])"
| "test_digits (Suc n) [] = False"
| "test_digits (Suc n) (c # cs) = (isDigit c \<and> test_digits n cs)"

text \<open>\<open>s.startsWith(p)\<close>\<close>

fun startsWith :: "jstring \<Rightarrow> jstring \<Rightarrow> bool" where
  "startsWith s [] = True"
| "startsWith [] (p # ps) = False"
| "startsWith (c # cs) (p # ps) = (c = p \<and> startsWith cs ps)"


text \<open>\<open>s.toLowerCase()\<close> on the ASCII letters, which are all its callers pass.\<close>

definition toLowerCase :: "jstring \<Rightarrow> jstring" where
  "toLowerCase s = map (\<lambda>c. if 0x41 \<le> c \<and> c \<le> 0x5A then c + 0x20 else c) s"

text \<open>
  The decimal rendering of an integer: \<open>String(n)\<close>, and \<open>${n}\<close> in a template
  literal, for an integer \<open>n\<close> of magnitude below \<open>10^21\<close>.
\<close>

definition digit_unit :: "int \<Rightarrow> code_unit" where
  "digit_unit d = 0x30 + of_int d"

function decimal :: "int \<Rightarrow> jstring" where
  "decimal n = (if n < 10 then [digit_unit n] else decimal (n div 10) @ [digit_unit (n mod 10)])"
  by pat_completeness auto
termination
  by (relation "measure nat") auto

declare decimal.simps [simp del]

definition number_to_string :: "int \<Rightarrow> jstring" where
  "number_to_string i = (if i < 0 then 0x2D # decimal (- i) else decimal i)"

text \<open>
  \<open>new Date(t).toISOString()\<close> for the instant \<open>t\<close>, in milliseconds since the epoch:
  the day number and the time within the day (ECMAScript's Day and TimeWithinDay), the
  day number turned into a date of the proleptic Gregorian calendar, and the fields
  printed as \<open>YYYY-MM-DDTHH:mm:ss.sssZ\<close>, with a sign and six digits for a year outside
  0 to 9999.
\<close>

definition pad :: "nat \<Rightarrow> int \<Rightarrow> jstring" where
  "pad w n = replicate (w - length (decimal n)) 0x30 @ decimal n"

definition civil_from_days :: "int \<Rightarrow> int \<times> int \<times> int" where
  "civil_from_days day =
     (let z = day + 719468;
          era = z div 146097;
          doe = z - era * 146097;
          yoe = (doe - doe div 1460 + doe div 36524 - doe div 146096) div 365;
          doy = doe - (365 * yoe + yoe div 4 - yoe div 100);
          mp = (5 * doy + 2) div 153;
          d = doy - (153 * mp + 2) div 5 + 1;
          m = (if mp < 10 then mp + 3 else mp - 9);
          y = yoe + era * 400 + (if m \<le> 2 then 1 else 0)
      in (y, m, d))"

definition toISOString :: "int \<Rightarrow> jstring" where
  "toISOString t =
     (let ms = t mod 86400000;
          (y, m, d) = civil_from_days (t div 86400000);
          year = (if 0 \<le> y \<and> y \<le> 9999 then pad 4 y
                  else (if y < 0 then 0x2D else 0x2B) # pad 6 \<bar>y\<bar>)
      in year @ js ''-'' @ pad 2 m @ js ''-'' @ pad 2 d @ js ''T''
         @ pad 2 (ms div 3600000) @ js '':'' @ pad 2 (ms div 60000 mod 60) @ js '':''
         @ pad 2 (ms div 1000 mod 60) @ js ''.'' @ pad 3 (ms mod 1000) @ js ''Z'')"

section \<open>JavaScript values\<close>

text \<open>
  The values \<open>JSON.parse\<close> and \<open>response.json()\<close> produce. An object is the list of
  its own properties in enumeration order, each key once. Numbers are carried as integers: the code
  only tests them for zero and prints them. \<open>undefined\<close> is \<open>None\<close> of \<open>json option\<close>.
\<close>

datatype json =
    JNull
  | JBool bool
  | JNum int
  | JStr jstring
  | JArr "json list"
  | JObj "(jstring \<times> json) list"

datatype js_error = TypeError | SyntaxError | NetworkError | StorageError

definition try_bind :: "js_error + 'a \<Rightarrow> ('a \<Rightarrow> js_error + 'b) \<Rightarrow> js_error + 'b" where
  "try_bind m f = (case m of Inl e \<Rightarrow> Inl e | Inr x \<Rightarrow> f x)"

text \<open>ToBoolean.\<close>

fun truthy :: "json option \<Rightarrow> bool" where
  "truthy None = False"
| "truthy (Some JNull) = False"
| "truthy (Some (JBool b)) = b"
| "truthy (Some (JNum n)) = (n \<noteq> 0)"
| "truthy (Some (JStr s)) = (s \<noteq> [])"
| "truthy (Some (JArr xs)) = True"
| "truthy (Some (JObj ps)) = True"

text \<open>
  \<open>a || b\<close> and \<open>a && b\<close>; the right operand is evaluated only when it is needed, so
  an exception it would raise is raised only then.
\<close>

definition or_else :: "json option \<Rightarrow> (js_error + json option) \<Rightarrow> js_error + json option" where
  "or_else a b = (if truthy a then Inr a else b)"

definition and_then :: "json option \<Rightarrow> json option \<Rightarrow> json option" where
  "and_then a b = (if truthy a then b else a)"

text \<open>
  \<open>v.name\<close> for the property names the code reads (\<open>status\<close>, \<open>message\<close>,
  \<open>order_id\<close>, \<open>wallet_balance_after\<close>): a TypeError on \<open>null\<close>, the own property of
  an object, \<open>undefined\<close> on every other value.
\<close>

fun get_prop :: "json \<Rightarrow> jstring \<Rightarrow> js_error + json option" where
  "get_prop JNull k = Inl TypeError"
| "get_prop (JObj ps) k = Inr (map_of ps k)"
| "get_prop v k = Inr None"

text \<open>
  Defining a property: an existing key keeps its place and takes the new value, a new
  key goes to the end. An object literal defines its properties from left to right.
\<close>

fun set_prop :: "(jstring \<times> json) list \<Rightarrow> jstring \<Rightarrow> json \<Rightarrow> (jstring \<times> json) list" where
  "set_prop [] k v = [(k, v)]"
| "set_prop ((k', v') # ps) k v =
     (if k' = k then (k, v) # ps else (k', v') # set_prop ps k v)"

definition object_literal :: "(jstring \<times> json) list \<Rightarrow> json" where
  "object_literal defs = JObj (foldl (\<lambda>ps (k, v). set_prop ps k v) [] defs)"

text \<open>
  \<open>...v\<close> inside an object literal: the own enumerable properties of \<open>v\<close>. An array
  and a string contribute their elements under their indices; \<open>null\<close>, \<open>undefined\<close>,
  numbers and booleans contribute nothing.
\<close>

fun indexed :: "nat \<Rightarrow> json list \<Rightarrow> (jstring \<times> json) list" where
  "indexed i [] = []"
| "indexed i (x # xs) = (decimal (int i), x) # indexed (Suc i) xs"

fun spread :: "json option \<Rightarrow> (jstring \<times> json) list" where
  "spread (Some (JObj ps)) = ps"
| "spread (Some (JArr xs)) = indexed 0 xs"
| "spread (Some (JStr s)) = indexed 0 (map (\<lambda>c. JStr [c]) s)"
| "spread v = []"

text \<open>
  \<open>${v}\<close> in a template literal: ToString. A primitive value has its usual
  rendering. An array is rendered by \<open>Array.prototype.join\<close>: its elements, \<open>null\<close>
  as the empty string and every other one by ToString, with commas between. An object
  is rendered by the \<open>toString\<close> it inherits, unless it has an own property of that
  name: a value from JSON is never a function, so neither it nor what \<open>valueOf\<close>
  returns gives a primitive, and the conversion raises a TypeError.
\<close>

fun to_string :: "json \<Rightarrow> js_error + jstring"
  and join_elements :: "json list \<Rightarrow> js_error + jstring" where
  "to_string JNull = Inr (js ''null'')"
| "to_string (JBool b) = Inr (if b then js ''true'' else js ''false'')"
| "to_string (JNum n) = Inr (number_to_string n)"
| "to_string (JStr s) = Inr s"
| "to_string (JArr xs) = join_elements xs"
| "to_string (JObj ps) =
     (if map_of ps (js ''toString'') = None then Inr (js ''[object Object]'')
      else Inl TypeError)"
| "join_elements [] = Inr []"
| "join_elements (x # xs) =
     try_bind (if x = JNull then Inr [] else to_string x) (\<lambda>s.
       if xs = [] then Inr s
       else try_bind (join_elements xs) (\<lambda>rest. Inr (s @ 0x2C # rest)))"

definition template_value :: "json option \<Rightarrow> js_error + jstring" where
  "template_value v = (case v of None \<Rightarrow> Inr (js ''undefined'') | Some x \<Rightarrow> to_string x)"

text \<open>
  \<open>list.unshift(x)\<close>: only an array has the method; on any other value the call raises
  a TypeError.
\<close>

fun unshift :: "json \<Rightarrow> json \<Rightarrow> js_error + json list" where
  "unshift (JArr xs) x = Inr (x # xs)"
| "unshift v x = Inl TypeError"


section \<open>AsyncStorage\<close>

text \<open>
  The device's key-value store holds strings. The application uses two keys:
  \<open>'api_key'\<close>, a plain string, and \<open>'transactions'\<close>, a string read with
  \<open>JSON.parse\<close> and written with \<open>JSON.stringify\<close>. JSON's concrete syntax is not
  modelled: a string under \<open>'transactions'\<close> is either the serialisation \<open>Json v\<close> of
  a value \<open>v\<close>, which \<open>JSON.parse\<close> maps back to \<open>v\<close>, or a string \<open>NotJson s\<close>
  that \<open>JSON.parse\<close> rejects with a SyntaxError; of the latter only its emptiness is
  ever inspected. What the store holds is state, and every value it can hold is
  considered. Whether the store answers is the surroundings' matter: a store whose
  \<open>failing\<close> flag is set rejects every call, and the operations are described both for
  a store that answers and for one that does not.
\<close>

datatype stored_text = NotJson jstring | Json json

record async_storage =
  api_key :: "jstring option"
  transactions :: "stored_text option"
  failing :: bool

definition getItem_api_key :: "async_storage \<Rightarrow> js_error + jstring option" where
  "getItem_api_key sto = (if failing sto then Inl StorageError else Inr (api_key sto))"

definition setItem_api_key :: "async_storage \<Rightarrow> jstring \<Rightarrow> js_error + async_storage" where
  "setItem_api_key sto v =
     (if failing sto then Inl StorageError else Inr (sto\<lparr>api_key := Some v\<rparr>))"

definition removeItem_api_key :: "async_storage \<Rightarrow> js_error + async_storage" where
  "removeItem_api_key sto =
     (if failing sto then Inl StorageError else Inr (sto\<lparr>api_key := None\<rparr>))"

definition getItem_transactions :: "async_storage \<Rightarrow> js_error + stored_text option" where
  "getItem_transactions sto = (if failing sto then Inl StorageError else Inr (transactions sto))"

definition setItem_transactions :: "async_storage \<Rightarrow> stored_text \<Rightarrow> js_error + async_storage" where
  "setItem_transactions sto v =
     (if failing sto then Inl StorageError else Inr (sto\<lparr>transactions := Some v\<rparr>))"

text \<open>\<open>AsyncStorage.multiRemove(['api_key', 'transactions'])\<close>\<close>

definition multiRemove_api_key_transactions :: "async_storage \<Rightarrow> js_error + async_storage" where
  "multiRemove_api_key_transactions sto =
     (if failing sto then Inl StorageError
      else Inr (sto\<lparr>api_key := None, transactions := None\<rparr>))"

definition JSON_parse :: "stored_text \<Rightarrow> js_error + json" where
  "JSON_parse t = (case t of NotJson s \<Rightarrow> Inl SyntaxError | Json v \<Rightarrow> Inr v)"

definition JSON_stringify :: "json \<Rightarrow> stored_text" where
  "JSON_stringify v = Json v"

text \<open>
  Truthiness of what \<open>getItem\<close> resolves to: \<open>null\<close> and the empty string are falsy. The
  serialisation of a value is never empty.
\<close>

fun text_truthy :: "stored_text option \<Rightarrow> bool" where
  "text_truthy None = False"
| "text_truthy (Some (NotJson s)) = (s \<noteq> [])"
| "text_truthy (Some (Json v)) = True"

section \<open>The send screen (index.tsx)\<close>

datatype network = MTN | Telecel

fun network_name :: "network \<Rightarrow> jstring" where
  "network_name MTN = js ''MTN''"
| "network_name Telecel = js ''Telecel''"

record send_state =
  network :: network
  selectedSize :: int
  phone :: jstring
  webhookUrl :: jstring
  loading :: bool
  apiKey :: jstring

text \<open>\<open>Alert.alert(title, message)\<close>: the title and the value passed as message.\<close>

type_synonym alert = "jstring \<times> json option"

definition ERROR_MESSAGES :: "nat \<Rightarrow> json option" where
  "ERROR_MESSAGES status = map_of
     [(400, JStr (js ''Missing required fields or invalid input'')),
      (401, JStr (js ''API key is missing'')),
      (403, JStr (js ''Invalid API key'')),
      (409, JStr (js ''Duplicate reference - transaction already exists'')),
      (422, JStr (js ''Invalid bundle size or unsupported network'')),
      (402, JStr (js ''Insufficient wallet balance'')),
      (429, JStr (js ''Rate limit exceeded - please wait before trying again'')),
      (500, JStr (js ''System error - please try again later''))] status"

definition loadApiKey_send :: "send_state \<Rightarrow> async_storage \<Rightarrow> send_state \<times> js_error list" where
  "loadApiKey_send st sto =
     (case getItem_api_key sto of
        Inl e \<Rightarrow> (st, [e])
      | Inr key \<Rightarrow>
          (case key of
             None \<Rightarrow> (st, [])
           | Some k \<Rightarrow> (if k \<noteq> [] then (st\<lparr>apiKey := k\<rparr>, []) else (st, []))))"

text \<open>
  \<open>validateForm\<close> returns \<open>false\<close> after showing an alert, or \<open>true\<close>: \<open>Some\<close> of the
  alert shown, or \<open>None\<close>.
\<close>

definition validateForm :: "send_state \<Rightarrow> alert option" where
  "validateForm st =
     (if trim (apiKey st) = [] then
        Some (js ''Error'', Some (JStr (js ''Please set your API key in Settings first'')))
      else if trim (phone st) = [] then
        Some (js ''Error'', Some (JStr (js ''Please enter a phone number'')))
      else if \<not> test_digits 10 (replace_ws (phone st)) then
        Some (js ''Error'', Some (JStr (js ''Please enter a valid 10-digit phone number'')))
      else if webhookUrl st \<noteq> [] \<and> \<not> startsWith (webhookUrl st) (js ''https://'') then
        Some (js ''Error'', Some (JStr (js ''Webhook URL must start with https://'')))
      else None)"

text \<open>The object built at the head of \<open>sendDataBundle\<close>; \<open>now\<close> is what \<open>Date.now()\<close> returns.\<close>

definition requestBody :: "send_state \<Rightarrow> int \<Rightarrow> json" where
  "requestBody st now = object_literal
     ([(js ''api_key'', JStr (apiKey st)),
       (js ''phone'', JStr (replace_ws (phone st))),
       (js ''size_mb'', JNum (selectedSize st)),
       (js ''network'', JStr (toLowerCase (network_name (network st)))),
       (js ''reference'', JStr (js ''TXN_'' @ number_to_string now))]
      @ spread (and_then (Some (JStr (webhookUrl st)))
                  (Some (object_literal [(js ''webhook_url'', JStr (webhookUrl st))]))))"

text \<open>
  \<open>saveTransaction\<close>: the body of its \<open>try\<close> block, then the function with its
  \<open>catch\<close>, which logs the error to the console (returned as the second component)
  and returns normally. \<open>now\<close> is the instant \<open>new Date()\<close> reads.
\<close>

definition newTransaction :: "int \<Rightarrow> json \<Rightarrow> json" where
  "newTransaction now data =
     object_literal (spread (Some data) @ [(js ''timestamp'', JStr (toISOString now))])"

definition saveTransaction_try ::
  "int \<Rightarrow> json \<Rightarrow> async_storage \<Rightarrow> js_error + async_storage" where
  "saveTransaction_try now data sto =
     try_bind (getItem_transactions sto) (\<lambda>transactions.
     try_bind (if text_truthy transactions
               then (case transactions of None \<Rightarrow> Inr (JArr []) | Some t \<Rightarrow> JSON_parse t)
               else Inr (JArr [])) (\<lambda>transactionList.
     try_bind (unshift transactionList (newTransaction now data)) (\<lambda>transactionList'.
       setItem_transactions sto (JSON_stringify (JArr (take 50 transactionList'))))))"

definition saveTransaction ::
  "int \<Rightarrow> json \<Rightarrow> async_storage \<Rightarrow> async_storage \<times> js_error list" where
  "saveTransaction now data sto =
     (case saveTransaction_try now data sto of
        Inl e \<Rightarrow> (sto, [e])
      | Inr sto' \<Rightarrow> (sto', []))"


text \<open>
  What the surroundings give one run of \<open>sendDataBundle\<close>: the clock when the handler
  starts, the time that passes until \<open>Date.now()\<close> is read for the reference, the
  outcome of \<open>fetch\<close>, the time that passes until \<open>saveTransaction\<close> reads
  \<open>new Date()\<close>, and the time that passes until the handler returns. The times are
  differences of readings of the device's clock, in milliseconds: one is negative when
  the clock is set back in between. \<open>fetch\<close> either rejects or resolves to a response
  with a status and a body; \<open>response.json()\<close> rejects on a body that is not JSON
  (\<open>None\<close>).
\<close>

datatype fetch_result = Rejected | Response nat "json option"

record env =
  started :: int
  until_reference :: int
  fetched :: fetch_result
  until_timestamp :: int
  until_return :: int

definition clock_reference :: "env \<Rightarrow> int" where
  "clock_reference e = started e + until_reference e"

definition clock_timestamp :: "env \<Rightarrow> int" where
  "clock_timestamp e = clock_reference e + until_timestamp e"

definition clock_return :: "env \<Rightarrow> int" where
  "clock_return e = clock_timestamp e + until_return e"

text \<open>\<open>response.ok\<close>: the status is in the range 200 to 299.\<close>

definition response_ok :: "nat \<Rightarrow> bool" where
  "response_ok status \<longleftrightarrow> 200 \<le> status \<and> status \<le> 299"

text \<open>
  The world one run of the handler acts on: the screen's state, the store, the alerts
  shown, the body posted (\<open>JSON.stringify(requestBody)\<close>) and the console.
\<close>

record world =
  w_state :: send_state
  w_storage :: async_storage
  w_alerts :: "alert list"
  w_posted :: "stored_text option"
  w_console :: "js_error list"

text \<open>\<open>response.ok && data.status === 'success'\<close>\<close>

definition is_success :: "nat \<Rightarrow> json \<Rightarrow> js_error + bool" where
  "is_success status data =
     (if response_ok status
      then try_bind (get_prop data (js ''status'')) (\<lambda>s. Inr (s = Some (JStr (js ''success''))))
      else Inr False)"

text \<open>\<open>ERROR_MESSAGES[response.status] || data.message || 'Unknown error occurred'\<close>\<close>

definition errorMessage :: "nat \<Rightarrow> json \<Rightarrow> js_error + json option" where
  "errorMessage status data =
     or_else (ERROR_MESSAGES status)
       (try_bind (get_prop data (js ''message'')) (\<lambda>m.
          or_else m (Inr (Some (JStr (js ''Unknown error occurred''))))))"

text \<open>
  The template literal of the success alert: each substitution is read and converted
  to a string in turn.
\<close>

definition success_message :: "json \<Rightarrow> js_error + jstring" where
  "success_message data =
     try_bind (get_prop data (js ''order_id'')) (\<lambda>order_id.
     try_bind (template_value order_id) (\<lambda>order_id_text.
     try_bind (get_prop data (js ''wallet_balance_after'')) (\<lambda>balance.
     try_bind (template_value balance) (\<lambda>balance_text.
       Inr (js ''Data bundle sent successfully!'' @ [0x0A]
            @ js ''Order ID: '' @ order_id_text @ [0x0A]
            @ js ''Balance: '' @ balance_text @ js '' credits'')))))"

text \<open>
  The \<open>try\<close> block of \<open>sendDataBundle\<close> after the request is built: the world where
  it stops, and the exception it stops with, if any.
\<close>

definition sendDataBundle_try ::
  "env \<Rightarrow> world \<Rightarrow> world \<times> js_error option" where
  "sendDataBundle_try e w =
     (case fetched e of
        Rejected \<Rightarrow> (w, Some NetworkError)
      | Response status body \<Rightarrow>
          (case body of
             None \<Rightarrow> (w, Some SyntaxError)
           | Some data \<Rightarrow>
               (case is_success status data of
                  Inl err \<Rightarrow> (w, Some err)
                | Inr True \<Rightarrow>
                    (let (sto', logged) =
                           saveTransaction (clock_timestamp e) data (w_storage w);
                         w' = w\<lparr>w_storage := sto', w_console := w_console w @ logged\<rparr>
                     in case success_message data of
                          Inl err \<Rightarrow> (w', Some err)
                        | Inr msg \<Rightarrow>
                            (w'\<lparr>w_alerts := w_alerts w' @ [(js ''Success!'', Some (JStr msg))],
                                w_state := (w_state w')\<lparr>phone := [], webhookUrl := []\<rparr>\<rparr>,
                             None))
                | Inr False \<Rightarrow>
                    (case errorMessage status data of
                       Inl err \<Rightarrow> (w, Some err)
                     | Inr m \<Rightarrow> (w\<lparr>w_alerts := w_alerts w @ [(js ''Error'', m)]\<rparr>, None)))))"

definition sendDataBundle ::
  "env \<Rightarrow> send_state \<Rightarrow> async_storage \<Rightarrow> world" where
  "sendDataBundle e st sto =
     (case validateForm st of
        Some a \<Rightarrow>
          \<lparr>w_state = st, w_storage = sto, w_alerts = [a], w_posted = None, w_console = []\<rparr>
      | None \<Rightarrow>
          (let w0 = \<lparr>w_state = st\<lparr>loading := True\<rparr>, w_storage = sto, w_alerts = [],
                     w_posted = Some (JSON_stringify (requestBody st (clock_reference e))),
                     w_console = []\<rparr>;
               (w1, thrown) = sendDataBundle_try e w0;
               w2 = (case thrown of
                       None \<Rightarrow> w1
                     | Some err \<Rightarrow>
                         w1\<lparr>w_alerts := w_alerts w1 @
                              [(js ''Error'', Some (JStr (js
                                 ''Network error. Please check your connection and try again.'')))]\<rparr>)
           in w2\<lparr>w_state := (w_state w2)\<lparr>loading := False\<rparr>\<rparr>))"

section \<open>The settings screen (settings.tsx)\<close>

record settings_state =
  settings_apiKey :: jstring
  tempApiKey :: jstring

definition loadApiKey_settings ::
  "settings_state \<Rightarrow> async_storage \<Rightarrow> settings_state \<times> js_error list" where
  "loadApiKey_settings st sto =
     (case getItem_api_key sto of
        Inl e \<Rightarrow> (st, [e])
      | Inr key \<Rightarrow>
          (case key of
             None \<Rightarrow> (st, [])
           | Some k \<Rightarrow>
               (if k \<noteq> [] then (st\<lparr>settings_apiKey := k, tempApiKey := k\<rparr>, [])
                else (st, []))))"

definition saveApiKey ::
  "settings_state \<Rightarrow> async_storage \<Rightarrow> settings_state \<times> async_storage \<times> alert list" where
  "saveApiKey st sto =
     (if trim (tempApiKey st) = [] then
        (st, sto, [(js ''Error'', Some (JStr (js ''Please enter an API key'')))])
      else
        (case setItem_api_key sto (trim (tempApiKey st)) of
           Inl e \<Rightarrow> (st, sto, [(js ''Error'', Some (JStr (js ''Failed to save API key'')))])
         | Inr sto' \<Rightarrow>
             (st\<lparr>settings_apiKey := trim (tempApiKey st)\<rparr>, sto',
              [(js ''Success'', Some (JStr (js ''API key saved successfully'')))])))"

text \<open>
  \<open>clearApiKey\<close> and \<open>clearAllData\<close> show a dialog with two buttons; the removal runs
  when the destructive one is pressed.
\<close>

datatype button = Cancel | Destructive

definition clearApiKey ::
  "button \<Rightarrow> settings_state \<Rightarrow> async_storage \<Rightarrow> settings_state \<times> async_storage \<times> alert list" where
  "clearApiKey pressed st sto =
     (let dialog = (js ''Clear API Key'', Some (JStr (js
            ''Are you sure you want to remove your API key? You won't be able to send data bundles without it.'')))
      in case pressed of
           Cancel \<Rightarrow> (st, sto, [dialog])
         | Destructive \<Rightarrow>
             (case removeItem_api_key sto of
                Inl e \<Rightarrow>
                  (st, sto, [dialog, (js ''Error'', Some (JStr (js ''Failed to clear API key'')))])
              | Inr sto' \<Rightarrow>
                  (st\<lparr>settings_apiKey := [], tempApiKey := []\<rparr>, sto',
                   [dialog, (js ''Success'', Some (JStr (js ''API key cleared'')))])))"

definition clearAllData ::
  "button \<Rightarrow> settings_state \<Rightarrow> async_storage \<Rightarrow> settings_state \<times> async_storage \<times> alert list" where
  "clearAllData pressed st sto =
     (let dialog = (js ''Clear All Data'', Some (JStr (js
            ''This will remove your API key and transaction history. This action cannot be undone.'')))
      in case pressed of
           Cancel \<Rightarrow> (st, sto, [dialog])
         | Destructive \<Rightarrow>
             (case multiRemove_api_key_transactions sto of
                Inl e \<Rightarrow>
                  (st, sto, [dialog, (js ''Error'', Some (JStr (js ''Failed to clear data'')))])
              | Inr sto' \<Rightarrow>
                  (st\<lparr>settings_apiKey := [], tempApiKey := []\<rparr>, sto',
                   [dialog, (js ''Success'', Some (JStr (js ''All data cleared'')))])))"


section \<open>Notions used to state the properties\<close>

text \<open>
  The sequence \<open>saveTransaction\<close> starts from: empty when nothing or the empty string
  is stored, the stored array when the stored string is the serialisation of one, and
  none when the stored string is not JSON or is JSON of another kind.
\<close>

fun stored_entries :: "async_storage \<Rightarrow> json list option" where
  "stored_entries sto =
     (case transactions sto of
        None \<Rightarrow> Some []
      | Some (NotJson s) \<Rightarrow> (if s = [] then Some [] else None)
      | Some (Json v) \<Rightarrow> (case v of JArr xs \<Rightarrow> Some xs | _ \<Rightarrow> None))"

text \<open>
  The values that have a string form: every value but an object with an own property
  \<open>toString\<close> and an array that holds, at any depth, such an object.
\<close>

fun convertible :: "json \<Rightarrow> bool" where
  "convertible (JObj ps) = (map_of ps (js ''toString'') = None)"
| "convertible (JArr xs) = list_all convertible xs"
| "convertible v = True"

definition convertible_value :: "json option \<Rightarrow> bool" where
  "convertible_value v = (case v of None \<Rightarrow> True | Some x \<Rightarrow> convertible x)"

text \<open>A run of appends, each with the instant it reads and the response it is given.\<close>

fun append_all :: "(int \<times> json) list \<Rightarrow> async_storage \<Rightarrow> async_storage" where
  "append_all [] sto = sto"
| "append_all ((now, data) # rest) sto = append_all rest (fst (saveTransaction now data sto))"

text \<open>A filled form that passes validation, for the examples.\<close>

abbreviation (input) example_form :: send_state where
  "example_form \<equiv>
     \<lparr>network = MTN, selectedSize = 1024, phone = js ''054 348 2280'', webhookUrl = [],
      loading = False, apiKey = js ''k1''\<rparr>"

section \<open>Strings: trimming, stripping, matching\<close>

lemma trim_Nil_iff: "trim s = [] \<longleftrightarrow> (\<forall>c\<in>set s. isWhiteSpace c)"
proof
  assume "trim s = []"
  then have all: "\<forall>c\<in>set (dropWhile isWhiteSpace s). isWhiteSpace c"
    by (simp add: trim_def)
  show "\<forall>c\<in>set s. isWhiteSpace c"
  proof (cases "dropWhile isWhiteSpace s = []")
    case True
    then show ?thesis by simp
  next
    case False
    then have "hd (dropWhile isWhiteSpace s) \<in> set (dropWhile isWhiteSpace s)"
      and "\<not> isWhiteSpace (hd (dropWhile isWhiteSpace s))"
      by (simp_all add: hd_dropWhile)
    with all show ?thesis by blast
  qed
next
  assume "\<forall>c\<in>set s. isWhiteSpace c"
  then show "trim s = []" by (auto simp: trim_def dest: set_dropWhileD)
qed

lemma replace_ws_filter: "replace_ws s = filter (\<lambda>c. \<not> isWhiteSpace c) s"
  by (induction s) simp_all

lemma test_digits_iff: "test_digits n s \<longleftrightarrow> length s = n \<and> (\<forall>c\<in>set s. isDigit c)"
  by (induction n s rule: test_digits.induct) auto

lemma startsWith_prefix: "startsWith s p \<longleftrightarrow> prefix p s"
  by (induction s p rule: startsWith.induct) auto

section \<open>The form validator\<close>

text \<open>
  Claim C1. The validator accepts exactly when the credential has a character that is
  not whitespace, the phone has one too, the phone without its whitespace is ten decimal
  digits, and the webhook URL is empty or begins with \<open>https://\<close>. The rules are tried
  in this order, and the alert shown is that of the first rule that fails.
\<close>

theorem validateForm_rules:
  "(validateForm st = None \<longleftrightarrow>
      (\<exists>c\<in>set (apiKey st). \<not> isWhiteSpace c)
    \<and> (\<exists>c\<in>set (phone st). \<not> isWhiteSpace c)
    \<and> (length (filter (\<lambda>c. \<not> isWhiteSpace c) (phone st)) = 10
       \<and> (\<forall>c\<in>set (filter (\<lambda>c. \<not> isWhiteSpace c) (phone st)). isDigit c))
    \<and> (webhookUrl st = [] \<or> prefix (js ''https://'') (webhookUrl st)))
  \<and> (\<not> (\<exists>c\<in>set (apiKey st). \<not> isWhiteSpace c) \<longrightarrow>
       validateForm st =
         Some (js ''Error'', Some (JStr (js ''Please set your API key in Settings first''))))
  \<and> ((\<exists>c\<in>set (apiKey st). \<not> isWhiteSpace c)
     \<and> \<not> (\<exists>c\<in>set (phone st). \<not> isWhiteSpace c) \<longrightarrow>
       validateForm st = Some (js ''Error'', Some (JStr (js ''Please enter a phone number''))))
  \<and> ((\<exists>c\<in>set (apiKey st). \<not> isWhiteSpace c)
     \<and> (\<exists>c\<in>set (phone st). \<not> isWhiteSpace c)
     \<and> \<not> (length (filter (\<lambda>c. \<not> isWhiteSpace c) (phone st)) = 10
          \<and> (\<forall>c\<in>set (filter (\<lambda>c. \<not> isWhiteSpace c) (phone st)). isDigit c)) \<longrightarrow>
       validateForm st =
         Some (js ''Error'', Some (JStr (js ''Please enter a valid 10-digit phone number''))))
  \<and> ((\<exists>c\<in>set (apiKey st). \<not> isWhiteSpace c)
     \<and> (\<exists>c\<in>set (phone st). \<not> isWhiteSpace c)
     \<and> (length (filter (\<lambda>c. \<not> isWhiteSpace c) (phone st)) = 10
        \<and> (\<forall>c\<in>set (filter (\<lambda>c. \<not> isWhiteSpace c) (phone st)). isDigit c))
     \<and> \<not> (webhookUrl st = [] \<or> prefix (js ''https://'') (webhookUrl st)) \<longrightarrow>
       validateForm st =
         Some (js ''Error'', Some (JStr (js ''Webhook URL must start with https://''))))"
  by (auto simp: validateForm_def trim_Nil_iff replace_ws_filter test_digits_iff
        startsWith_prefix)

theorem validateForm_rules_witness:
  "validateForm \<lparr>network = MTN, selectedSize = 1024, phone = js ''054 348 2280'',
      webhookUrl = js ''https://example.com/hook'', loading = False, apiKey = js ''k1''\<rparr> = None
   \<and> validateForm \<lparr>network = MTN, selectedSize = 1024, phone = js ''05434822801'',
      webhookUrl = js ''http://x.com'', loading = False, apiKey = js ''k1''\<rparr> =
       Some (js ''Error'', Some (JStr (js ''Please enter a valid 10-digit phone number'')))"
  using validateForm_rules [of "\<lparr>network = MTN, selectedSize = 1024,
      phone = js ''054 348 2280'', webhookUrl = js ''https://example.com/hook'',
      loading = False, apiKey = js ''k1''\<rparr>"]
    validateForm_rules [of "\<lparr>network = MTN, selectedSize = 1024,
      phone = js ''05434822801'', webhookUrl = js ''http://x.com'',
      loading = False, apiKey = js ''k1''\<rparr>"]
  by (simp add: js_def isWhiteSpace_def isDigit_def)

section \<open>Appending to the transaction log\<close>

lemma saveTransaction_failing:
  "failing sto \<Longrightarrow> saveTransaction now d sto = (sto, [StorageError])"
  by (simp add: saveTransaction_def saveTransaction_try_def getItem_transactions_def try_bind_def)

lemma saveTransaction_readable:
  assumes "\<not> failing sto" and "stored_entries sto = Some xs"
  shows "saveTransaction now d sto =
           (sto\<lparr>transactions := Some (Json (JArr (take 50 (newTransaction now d # xs))))\<rparr>, [])"
  using assms
  by (auto simp: saveTransaction_def saveTransaction_try_def getItem_transactions_def
        setItem_transactions_def try_bind_def JSON_parse_def JSON_stringify_def
      split: option.splits stored_text.splits json.splits if_splits)

lemma saveTransaction_unreadable:
  assumes "\<not> failing sto" and "stored_entries sto = None"
  shows "saveTransaction now d sto =
           (sto, [case transactions sto of Some (Json v) \<Rightarrow> TypeError | _ \<Rightarrow> SyntaxError])"
  using assms
  by (auto simp: saveTransaction_def saveTransaction_try_def getItem_transactions_def
        setItem_transactions_def try_bind_def JSON_parse_def JSON_stringify_def
      split: option.splits stored_text.splits json.splits if_splits)

lemma saveTransaction_caught:
  "saveTransaction_try now d sto = Inl err \<Longrightarrow> saveTransaction now d sto = (sto, [err])"
  by (simp add: saveTransaction_def)

lemma take_append_take: "take n (as @ take n bs) = take n (as @ bs)"
  by (simp add: min_def)

lemma append_all_readable:
  assumes "\<not> failing sto" and "stored_entries sto = Some xs"
  shows "append_all es sto =
           (if es = [] then sto
            else sto\<lparr>transactions := Some (Json (JArr
                   (take 50 (rev (map (\<lambda>(t, d). newTransaction t d) es) @ xs))))\<rparr>)"
  using assms
proof (induction es arbitrary: sto xs)
  case Nil
  then show ?case by simp
next
  case (Cons e es)
  obtain t d where e: "e = (t, d)" by (cases e)
  let ?sto1 = "sto\<lparr>transactions := Some (Json (JArr (take 50 (newTransaction t d # xs))))\<rparr>"
  have step: "append_all (e # es) sto = append_all es ?sto1"
    using Cons.prems e by (simp add: saveTransaction_readable del: take_Cons_numeral)
  have "\<not> failing ?sto1" and "stored_entries ?sto1 = Some (take 50 (newTransaction t d # xs))"
    using Cons.prems by (simp_all del: take_Cons_numeral)
  note IH = Cons.IH [OF this]
  show ?case
  proof (cases "es = []")
    case True
    with step e show ?thesis by (simp del: take_Cons_numeral)
  next
    case False
    with step IH e show ?thesis
      by (simp add: take_append_take del: take_Cons_numeral take_append)
  qed
qed

lemma append_all_unreadable:
  "stored_entries sto = None \<Longrightarrow> append_all es sto = sto"
proof (induction es)
  case Nil
  then show ?case by simp
next
  case (Cons e es)
  then show ?case
    by (cases e; cases "failing sto")
       (simp_all add: saveTransaction_failing saveTransaction_unreadable)
qed

lemma take_fifty_of_rev:
  assumes "50 \<le> length es"
  shows "take 50 (rev (map f es) @ xs) = rev (map f (drop (length es - 50) es))"
proof -
  have "take 50 (rev (map f es) @ xs) = take 50 (rev (map f es))"
    using assms by simp
  also have "\<dots> = rev (drop (length es - 50) (map f es))"
    by (simp add: take_rev)
  finally show ?thesis by (simp add: drop_map)
qed

text \<open>
  Claim C2, as amended. From a store that answers and whose persisted log is absent,
  empty or a well-formed array, more than 50 appends leave exactly 50 entries: those of
  the 50 latest appends, newest first. One append from such a store leaves at most 50
  entries.
\<close>

theorem append_all_keeps_newest_fifty:
  assumes "\<not> failing sto" and "stored_entries sto = Some xs" and "50 < length es"
  shows "transactions (append_all es sto) =
           Some (Json (JArr (rev (map (\<lambda>(t, d). newTransaction t d) (drop (length es - 50) es)))))
       \<and> length (rev (map (\<lambda>(t, d). newTransaction t d) (drop (length es - 50) es))) = 50
       \<and> (\<exists>ys. stored_entries (fst (saveTransaction now d sto)) = Some ys \<and> length ys \<le> 50)"
proof -
  from assms(3) have ne: "es \<noteq> []" and len: "50 \<le> length es" by auto
  have "transactions (append_all es sto) =
          Some (Json (JArr (take 50 (rev (map (\<lambda>(t, d). newTransaction t d) es) @ xs))))"
    using ne by (simp add: append_all_readable [OF assms(1,2)])
  then have first: "transactions (append_all es sto) =
      Some (Json (JArr (rev (map (\<lambda>(t, d). newTransaction t d) (drop (length es - 50) es)))))"
    by (simp only: take_fifty_of_rev [OF len])
  have second: "length (rev (map (\<lambda>(t, d). newTransaction t d) (drop (length es - 50) es))) = 50"
    using len by simp
  have third: "\<exists>ys. stored_entries (fst (saveTransaction now d sto)) = Some ys \<and> length ys \<le> 50"
    by (simp add: saveTransaction_readable [OF assms(1,2)] del: take_Cons_numeral)
  from first second third show ?thesis by blast
qed

theorem append_all_keeps_newest_fifty_witness:
  "transactions (append_all (map (\<lambda>k. (1730570000000 + k, JObj [(js ''order_id'', JNum k)])) [1..51])
       \<lparr>api_key = None, transactions = None, failing = False\<rparr>) =
     Some (Json (JArr (rev (map (\<lambda>(t, d). newTransaction t d)
       (map (\<lambda>k. (1730570000000 + k, JObj [(js ''order_id'', JNum k)])) [2..51])))))"
proof -
  let ?es = "map (\<lambda>k. (1730570000000 + k, JObj [(js ''order_id'', JNum k)])) [1..51]"
  let ?sto = "\<lparr>api_key = None, transactions = None, failing = False\<rparr>"
  have h1: "\<not> failing ?sto" by simp
  have h2: "stored_entries ?sto = Some []" by simp
  have h3: "50 < length ?es" by simp
  have "[1..51] = 1 # [2..51]" by (simp add: upto_rec1)
  then have d: "drop (length ?es - 50) ?es =
      map (\<lambda>k. (1730570000000 + k, JObj [(js ''order_id'', JNum k)])) [2..51]"
    by simp
  from append_all_keeps_newest_fifty [OF h1 h2 h3] show ?thesis
    by (simp only: d)
qed

theorem append_all_from_malformed_log:
  "transactions (append_all
       (replicate 51 (1730570000123, JObj [(js ''status'', JStr (js ''success''))]))
       \<lparr>api_key = None, transactions = Some (NotJson (js ''{corrupt'')), failing = False\<rparr>) =
     Some (NotJson (js ''{corrupt''))"
  by (simp add: append_all_unreadable js_def)

text \<open>
  Claim C3, as amended. \<open>saveTransaction\<close> always returns normally: whatever its
  \<open>try\<close> block raises is logged and the store is left as it was. When the store
  answers and nothing or the empty string is persisted, it writes a log of one entry,
  the new one. When a well-formed array is persisted, it writes the new entry followed by
  the first 49 stored ones, all of them if there are fewer than 50. When the persisted
  string is not JSON, or is JSON but not an array, or the store fails, nothing is
  written.
\<close>

theorem saveTransaction_effect:
  "(saveTransaction_try now d sto = Inl err \<longrightarrow> saveTransaction now d sto = (sto, [err]))
 \<and> (\<not> failing sto \<and> (transactions sto = None \<or> transactions sto = Some (NotJson [])) \<longrightarrow>
      saveTransaction now d sto =
        (sto\<lparr>transactions := Some (Json (JArr [newTransaction now d]))\<rparr>, []))
 \<and> (\<not> failing sto \<and> transactions sto = Some (Json (JArr xs)) \<longrightarrow>
      saveTransaction now d sto =
        (sto\<lparr>transactions := Some (Json (JArr (newTransaction now d # take 49 xs)))\<rparr>, [])
      \<and> (length xs < 50 \<longrightarrow> take 49 xs = xs))
 \<and> (failing sto \<or> stored_entries sto = None \<longrightarrow> fst (saveTransaction now d sto) = sto)"
proof -
  have a: "saveTransaction_try now d sto = Inl err \<longrightarrow> saveTransaction now d sto = (sto, [err])"
    by (simp add: saveTransaction_caught)
  have b: "\<not> failing sto \<and> (transactions sto = None \<or> transactions sto = Some (NotJson [])) \<longrightarrow>
      saveTransaction now d sto =
        (sto\<lparr>transactions := Some (Json (JArr [newTransaction now d]))\<rparr>, [])"
    by (auto simp: saveTransaction_readable [where xs = "[]"])
  have c: "\<not> failing sto \<and> transactions sto = Some (Json (JArr xs)) \<longrightarrow>
      saveTransaction now d sto =
        (sto\<lparr>transactions := Some (Json (JArr (newTransaction now d # take 49 xs)))\<rparr>, [])
      \<and> (length xs < 50 \<longrightarrow> take 49 xs = xs)"
    by (auto simp: saveTransaction_readable [where xs = xs])
  have d: "failing sto \<or> stored_entries sto = None \<longrightarrow> fst (saveTransaction now d sto) = sto"
    by (cases "failing sto") (auto simp: saveTransaction_failing saveTransaction_unreadable)
  from a b c d show ?thesis by blast
qed

theorem saveTransaction_effect_witness:
  "saveTransaction 1730570000123 (JObj [(js ''status'', JStr (js ''success''))])
      \<lparr>api_key = None, transactions = Some (Json (JArr [JObj [(js ''order_id'', JNum 7)]])),
        failing = False\<rparr> =
    (\<lparr>api_key = None,
       transactions = Some (Json (JArr
         [JObj [(js ''status'', JStr (js ''success'')),
                (js ''timestamp'', JStr (js ''2024-11-02T17:53:20.123Z''))],
          JObj [(js ''order_id'', JNum 7)]])),
       failing = False\<rparr>, [])"
proof -
  have n: "newTransaction 1730570000123 (JObj [(js ''status'', JStr (js ''success''))]) =
      JObj [(js ''status'', JStr (js ''success'')),
            (js ''timestamp'', JStr (js ''2024-11-02T17:53:20.123Z''))]"
    by code_simp
  from saveTransaction_effect [of 1730570000123 "JObj [(js ''status'', JStr (js ''success''))]"
      "\<lparr>api_key = None, transactions = Some (Json (JArr [JObj [(js ''order_id'', JNum 7)]])),
        failing = False\<rparr>" _ "[JObj [(js ''order_id'', JNum 7)]]"]
  show ?thesis by (simp add: n)
qed

theorem saveTransaction_on_malformed_log:
  "saveTransaction 1730570000123 (JObj [(js ''status'', JStr (js ''success''))])
      \<lparr>api_key = None, transactions = Some (NotJson (js ''{corrupt'')), failing = False\<rparr> =
    (\<lparr>api_key = None, transactions = Some (NotJson (js ''{corrupt'')), failing = False\<rparr>,
     [SyntaxError])"
  by (simp add: saveTransaction_unreadable js_def)

section \<open>Submitting an order\<close>

lemma get_prop_not_null: "data \<noteq> JNull \<Longrightarrow> \<exists>v. get_prop data k = Inr v"
  by (cases data) simp_all

lemma get_prop_Inr_not_null: "get_prop data k = Inr v \<Longrightarrow> data \<noteq> JNull"
  by (cases data) simp_all

lemma is_success_iff:
  "is_success status data = Inr True \<longleftrightarrow>
     response_ok status \<and> get_prop data (js ''status'') = Inr (Some (JStr (js ''success'')))"
  by (cases "get_prop data (js ''status'')") (auto simp: is_success_def try_bind_def)

lemma is_success_not_ok: "\<not> response_ok status \<Longrightarrow> is_success status data = Inr False"
  by (simp add: is_success_def)

lemma is_success_other_status:
  "get_prop data (js ''status'') = Inr s \<Longrightarrow> s \<noteq> Some (JStr (js ''success'')) \<Longrightarrow>
   is_success status data = Inr False"
  by (simp add: is_success_def try_bind_def)

lemma to_string_convertible:
  "convertible v \<Longrightarrow> \<exists>s. to_string v = Inr s"
  "list_all convertible xs \<Longrightarrow> \<exists>s. join_elements xs = Inr s"
  by (induction v and xs rule: to_string_join_elements.induct)
     (auto simp: try_bind_def)

lemma to_string_raises_TypeError:
  "to_string v = Inl err \<Longrightarrow> err = TypeError"
  "join_elements xs = Inl err \<Longrightarrow> err = TypeError"
  by (induction v and xs rule: to_string_join_elements.induct)
     (auto simp: try_bind_def split: sum.splits if_splits)

lemma to_string_convertible_iff:
  "(\<exists>s. to_string v = Inr s) \<longleftrightarrow> convertible v"
  "(\<exists>s. join_elements xs = Inr s) \<longleftrightarrow> list_all convertible xs"
  by (induction v and xs rule: to_string_join_elements.induct)
     (auto simp: try_bind_def split: sum.splits if_splits)

lemma to_string_not_convertible:
  assumes "\<not> convertible v"
  shows "to_string v = Inl TypeError"
proof (cases "to_string v")
  case (Inl err)
  then show ?thesis using to_string_raises_TypeError(1) by blast
next
  case (Inr s)
  with assms show ?thesis using to_string_convertible_iff(1) by blast
qed

lemma template_value_convertible:
  "convertible_value v \<Longrightarrow> \<exists>s. template_value v = Inr s"
  by (cases v) (simp_all add: convertible_value_def template_value_def to_string_convertible)

lemma template_value_not_convertible:
  "\<not> convertible_value v \<Longrightarrow> template_value v = Inl TypeError"
  by (cases v) (simp_all add: convertible_value_def template_value_def to_string_not_convertible)

lemma success_message_text:
  assumes "get_prop data (js ''order_id'') = Inr order_id"
    and "get_prop data (js ''wallet_balance_after'') = Inr balance"
    and "template_value order_id = Inr order_id_text"
    and "template_value balance = Inr balance_text"
  shows "success_message data =
     Inr (js ''Data bundle sent successfully!'' @ [0x0A]
          @ js ''Order ID: '' @ order_id_text @ [0x0A]
          @ js ''Balance: '' @ balance_text @ js '' credits'')"
  using assms by (simp add: success_message_def try_bind_def)

lemma success_message_raises:
  assumes "get_prop data (js ''order_id'') = Inr order_id"
    and "get_prop data (js ''wallet_balance_after'') = Inr balance"
    and "\<not> (convertible_value order_id \<and> convertible_value balance)"
  shows "success_message data = Inl TypeError"
proof (cases "convertible_value order_id")
  case True
  then obtain s where "template_value order_id = Inr s"
    using template_value_convertible by blast
  moreover from True assms(3) have "template_value balance = Inl TypeError"
    by (simp add: template_value_not_convertible)
  ultimately show ?thesis
    using assms(1,2) by (simp add: success_message_def try_bind_def)
next
  case False
  then have "template_value order_id = Inl TypeError"
    by (rule template_value_not_convertible)
  then show ?thesis
    using assms(1) by (simp add: success_message_def try_bind_def)
qed

lemma errorMessage_message:
  "ERROR_MESSAGES status = None \<Longrightarrow> get_prop data (js ''message'') = Inr m \<Longrightarrow>
   errorMessage status data =
     Inr (if truthy m then m else Some (JStr (js ''Unknown error occurred'')))"
  by (simp add: errorMessage_def or_else_def try_bind_def)

lemma errorMessage_table:
  "ERROR_MESSAGES status = Some (JStr s) \<Longrightarrow> s \<noteq> [] \<Longrightarrow>
   errorMessage status data = Inr (Some (JStr s))"
  by (simp add: errorMessage_def or_else_def)

lemma ERROR_MESSAGES_ok: "response_ok status \<Longrightarrow> ERROR_MESSAGES status = None"
  by (simp add: response_ok_def ERROR_MESSAGES_def)

lemma ERROR_MESSAGES_unlisted:
  "status \<notin> {400, 401, 402, 403, 409, 422, 429, 500} \<Longrightarrow> ERROR_MESSAGES status = None"
  by (simp add: ERROR_MESSAGES_def)

lemma ERROR_MESSAGES_listed:
  assumes "(status, s) \<in> set
     [(400, js ''Missing required fields or invalid input''),
      (401, js ''API key is missing''),
      (403, js ''Invalid API key''),
      (409, js ''Duplicate reference - transaction already exists''),
      (422, js ''Invalid bundle size or unsupported network''),
      (402, js ''Insufficient wallet balance''),
      (429, js ''Rate limit exceeded - please wait before trying again''),
      (500, js ''System error - please try again later'')]"
  shows "ERROR_MESSAGES status = Some (JStr s)" and "s \<noteq> []" and "\<not> response_ok status"
  using assms by (auto simp: ERROR_MESSAGES_def response_ok_def js_def)

text \<open>What one run does, by the outcome of the request.\<close>

lemma sendDataBundle_invalid:
  "validateForm st = Some a \<Longrightarrow>
   sendDataBundle e st sto =
     \<lparr>w_state = st, w_storage = sto, w_alerts = [a], w_posted = None, w_console = []\<rparr>"
  by (simp add: sendDataBundle_def)

lemma sendDataBundle_thrown:
  assumes "validateForm st = None"
    and "fetched e = Rejected \<or> (\<exists>status. fetched e = Response status None)
         \<or> (\<exists>status data err. fetched e = Response status (Some data)
              \<and> (is_success status data = Inl err
                  \<or> is_success status data = Inr False \<and> errorMessage status data = Inl err))"
  shows "sendDataBundle e st sto =
     \<lparr>w_state = st\<lparr>loading := False\<rparr>, w_storage = sto,
      w_alerts = [(js ''Error'', Some (JStr (js
         ''Network error. Please check your connection and try again.'')))],
      w_posted = Some (Json (requestBody st (clock_reference e))), w_console = []\<rparr>"
  using assms
  by (auto simp: sendDataBundle_def sendDataBundle_try_def JSON_stringify_def)

lemma sendDataBundle_error:
  assumes "validateForm st = None" and "fetched e = Response status (Some data)"
    and "is_success status data = Inr False" and "errorMessage status data = Inr m"
  shows "sendDataBundle e st sto =
     \<lparr>w_state = st\<lparr>loading := False\<rparr>, w_storage = sto, w_alerts = [(js ''Error'', m)],
      w_posted = Some (Json (requestBody st (clock_reference e))), w_console = []\<rparr>"
  using assms
  by (simp add: sendDataBundle_def sendDataBundle_try_def JSON_stringify_def)

lemma sendDataBundle_success:
  assumes "validateForm st = None" and "fetched e = Response status (Some data)"
    and "is_success status data = Inr True" and "success_message data = Inr msg"
  shows "sendDataBundle e st sto =
     \<lparr>w_state = st\<lparr>phone := [], webhookUrl := [], loading := False\<rparr>,
      w_storage = fst (saveTransaction (clock_timestamp e) data sto),
      w_alerts = [(js ''Success!'', Some (JStr msg))],
      w_posted = Some (Json (requestBody st (clock_reference e))),
      w_console = snd (saveTransaction (clock_timestamp e) data sto)\<rparr>"
  using assms
  by (simp add: sendDataBundle_def sendDataBundle_try_def JSON_stringify_def split: prod.splits)

lemma sendDataBundle_success_raised:
  assumes "validateForm st = None" and "fetched e = Response status (Some data)"
    and "is_success status data = Inr True" and "success_message data = Inl err"
  shows "sendDataBundle e st sto =
     \<lparr>w_state = st\<lparr>loading := False\<rparr>,
      w_storage = fst (saveTransaction (clock_timestamp e) data sto),
      w_alerts = [(js ''Error'', Some (JStr (js
         ''Network error. Please check your connection and try again.'')))],
      w_posted = Some (Json (requestBody st (clock_reference e))),
      w_console = snd (saveTransaction (clock_timestamp e) data sto)\<rparr>"
  using assms
  by (simp add: sendDataBundle_def sendDataBundle_try_def JSON_stringify_def split: prod.splits)

lemma map_of_set_prop: "map_of (set_prop ps k v) = (map_of ps)(k \<mapsto> v)"
  by (induction ps k v rule: set_prop.induct) auto

lemma newTransaction_timestamp:
  "get_prop (newTransaction now data) (js ''timestamp'') = Inr (Some (JStr (toISOString now)))"
  by (simp add: newTransaction_def object_literal_def map_of_set_prop)

lemma clock_order:
  "0 \<le> until_reference e \<Longrightarrow> 0 \<le> until_timestamp e \<Longrightarrow> 0 \<le> until_return e \<Longrightarrow>
   started e \<le> clock_timestamp e \<and> clock_timestamp e \<le> clock_return e"
  by (simp add: clock_return_def clock_timestamp_def clock_reference_def)

lemma clock_set_back:
  "clock_timestamp \<lparr>started = 1730570000000, until_reference = 0, fetched = Rejected,
      until_timestamp = - 5000, until_return = 2\<rparr> < 1730570000000"
  by (simp add: clock_timestamp_def clock_reference_def)

lemma sendDataBundle_not_success:
  assumes valid: "validateForm st = None"
    and no: "\<not> (\<exists>status data. fetched e = Response status (Some data)
                 \<and> is_success status data = Inr True)"
  shows "w_storage (sendDataBundle e st sto) = sto
       \<and> w_state (sendDataBundle e st sto) = st\<lparr>loading := False\<rparr>
       \<and> (\<exists>m. w_alerts (sendDataBundle e st sto) = [(js ''Error'', m)])"
proof (cases "fetched e")
  case Rejected
  then show ?thesis by (simp add: sendDataBundle_thrown [OF valid])
next
  case (Response status body)
  show ?thesis
  proof (cases body)
    case None
    with Response show ?thesis by (simp add: sendDataBundle_thrown [OF valid])
  next
    case (Some data)
    with Response have f: "fetched e = Response status (Some data)" by simp
    show ?thesis
    proof (cases "is_success status data")
      case (Inl err)
      with f show ?thesis by (simp add: sendDataBundle_thrown [OF valid])
    next
      case (Inr b)
      with no f have s: "is_success status data = Inr False" by auto
      show ?thesis
      proof (cases "errorMessage status data")
        case (Inl err)
        with f s show ?thesis by (simp add: sendDataBundle_thrown [OF valid])
      next
        case (Inr m)
        with f s show ?thesis by (simp add: sendDataBundle_error [OF valid])
      qed
    qed
  qed
qed

lemma example_form_valid: "validateForm example_form = None"
  by code_simp

text \<open>
  Claim C4, as amended. For a response whose body is JSON: a status in the table
  gives the table's fixed message whatever the body holds (409 the duplicate-reference
  message); for a status outside the table, when the submission is not a success and
  the body is not \<open>null\<close>, the message is the body's \<open>message\<close> field if that is truthy
  and the unknown-error string otherwise. When the request fails or the body is not
  JSON, the message is the connectivity message whatever the status; so it is for a
  body \<open>null\<close> with a status outside the table.
\<close>

theorem error_alert_message:
  assumes "validateForm st = None"
  shows "(fetched e = Response status (Some data)
          \<and> (status, s) \<in> set
              [(400, js ''Missing required fields or invalid input''),
               (401, js ''API key is missing''),
               (403, js ''Invalid API key''),
               (409, js ''Duplicate reference - transaction already exists''),
               (422, js ''Invalid bundle size or unsupported network''),
               (402, js ''Insufficient wallet balance''),
               (429, js ''Rate limit exceeded - please wait before trying again''),
               (500, js ''System error - please try again later'')] \<longrightarrow>
            w_alerts (sendDataBundle e st sto) = [(js ''Error'', Some (JStr s))])
       \<and> (fetched e = Response status (Some data)
          \<and> status \<notin> {400, 401, 402, 403, 409, 422, 429, 500}
          \<and> \<not> (response_ok status
                \<and> get_prop data (js ''status'') = Inr (Some (JStr (js ''success''))))
          \<and> get_prop data (js ''message'') = Inr m \<longrightarrow>
            w_alerts (sendDataBundle e st sto) =
              [(js ''Error'', if truthy m then m else Some (JStr (js ''Unknown error occurred'')))])
       \<and> (fetched e = Rejected \<or> fetched e = Response status None
          \<or> fetched e = Response status (Some JNull)
              \<and> status \<notin> {400, 401, 402, 403, 409, 422, 429, 500} \<longrightarrow>
            w_alerts (sendDataBundle e st sto) =
              [(js ''Error'', Some (JStr (js
                 ''Network error. Please check your connection and try again.'')))])"
proof -
  have listed: "w_alerts (sendDataBundle e st sto) = [(js ''Error'', Some (JStr s))]"
    if f: "fetched e = Response status (Some data)"
      and t: "ERROR_MESSAGES status = Some (JStr s)" "s \<noteq> []" "\<not> response_ok status"
    for s
    using sendDataBundle_error [OF assms f is_success_not_ok errorMessage_table] t by simp
  have a: "fetched e = Response status (Some data)
          \<and> (status, s) \<in> set
              [(400, js ''Missing required fields or invalid input''),
               (401, js ''API key is missing''),
               (403, js ''Invalid API key''),
               (409, js ''Duplicate reference - transaction already exists''),
               (422, js ''Invalid bundle size or unsupported network''),
               (402, js ''Insufficient wallet balance''),
               (429, js ''Rate limit exceeded - please wait before trying again''),
               (500, js ''System error - please try again later'')] \<longrightarrow>
            w_alerts (sendDataBundle e st sto) = [(js ''Error'', Some (JStr s))]"
    using listed ERROR_MESSAGES_listed by blast
  have b: "w_alerts (sendDataBundle e st sto) =
              [(js ''Error'', if truthy m then m else Some (JStr (js ''Unknown error occurred'')))]"
    if f: "fetched e = Response status (Some data)"
      and u: "status \<notin> {400, 401, 402, 403, 409, 422, 429, 500}"
      and n: "\<not> (response_ok status
                \<and> get_prop data (js ''status'') = Inr (Some (JStr (js ''success''))))"
      and m: "get_prop data (js ''message'') = Inr m"
  proof -
    from m have "data \<noteq> JNull" by (rule get_prop_Inr_not_null)
    then obtain v where v: "get_prop data (js ''status'') = Inr v"
      using get_prop_not_null by blast
    have "is_success status data = Inr False"
    proof (cases "response_ok status")
      case True
      with n v have "v \<noteq> Some (JStr (js ''success''))" by simp
      with v show ?thesis by (rule is_success_other_status)
    next
      case False
      then show ?thesis by (rule is_success_not_ok)
    qed
    from sendDataBundle_error [OF assms f this
        errorMessage_message [OF ERROR_MESSAGES_unlisted [OF u] m]]
    show ?thesis by simp
  qed
  have null: "\<exists>err. is_success status JNull = Inl err
        \<or> is_success status JNull = Inr False \<and> errorMessage status JNull = Inl err"
    if "status \<notin> {400, 401, 402, 403, 409, 422, 429, 500}"
    using ERROR_MESSAGES_unlisted [OF that]
    by (simp add: is_success_def errorMessage_def or_else_def try_bind_def)
  have c: "fetched e = Rejected \<or> fetched e = Response status None
          \<or> fetched e = Response status (Some JNull)
              \<and> status \<notin> {400, 401, 402, 403, 409, 422, 429, 500} \<longrightarrow>
            w_alerts (sendDataBundle e st sto) =
              [(js ''Error'', Some (JStr (js
                 ''Network error. Please check your connection and try again.'')))]"
    using null by (auto simp: sendDataBundle_thrown [OF assms])
  from a b c show ?thesis by blast
qed

theorem error_alert_message_witness:
  "w_alerts (sendDataBundle
      \<lparr>started = 1730570000000, until_reference = 0,
        fetched = Response 409 (Some (JObj [(js ''message'', JStr (js ''Conflict''))])),
        until_timestamp = 120, until_return = 2\<rparr>
      example_form \<lparr>api_key = Some (js ''k1''), transactions = None, failing = False\<rparr>) =
     [(js ''Error'', Some (JStr (js ''Duplicate reference - transaction already exists'')))]"
  using error_alert_message [OF example_form_valid,
      where e = "\<lparr>started = 1730570000000, until_reference = 0,
        fetched = Response 409 (Some (JObj [(js ''message'', JStr (js ''Conflict''))])),
        until_timestamp = 120, until_return = 2\<rparr>"
      and status = 409 and data = "JObj [(js ''message'', JStr (js ''Conflict''))]"
      and s = "js ''Duplicate reference - transaction already exists''"]
  by simp

theorem status_409_body_not_json:
  "w_alerts (sendDataBundle
      \<lparr>started = 1730570000000, until_reference = 0, fetched = Response 409 None,
        until_timestamp = 120, until_return = 2\<rparr>
      example_form \<lparr>api_key = Some (js ''k1''), transactions = None, failing = False\<rparr>) =
     [(js ''Error'', Some (JStr (js
        ''Network error. Please check your connection and try again.'')))]"
  by (simp add: sendDataBundle_thrown [OF example_form_valid])

text \<open>
  Claim C8, as amended. A response with a status from 200 to 299 whose body is not
  \<open>null\<close> and whose \<open>status\<close> field is not the string \<open>success\<close> is an error: the store
  is not touched, the phone and webhook fields are kept, and, no such status being in
  the table, the alert carries the body's \<open>message\<close> field if that is truthy and the
  unknown-error string otherwise.
\<close>

theorem ok_without_success_is_error:
  assumes "validateForm st = None" and "fetched e = Response status (Some data)"
    and "response_ok status" and "get_prop data (js ''status'') = Inr s"
    and "s \<noteq> Some (JStr (js ''success''))"
  shows "\<exists>m. get_prop data (js ''message'') = Inr m
       \<and> w_alerts (sendDataBundle e st sto) =
           [(js ''Error'', if truthy m then m else Some (JStr (js ''Unknown error occurred'')))]
       \<and> ERROR_MESSAGES status = None
       \<and> w_storage (sendDataBundle e st sto) = sto
       \<and> phone (w_state (sendDataBundle e st sto)) = phone st
       \<and> webhookUrl (w_state (sendDataBundle e st sto)) = webhookUrl st"
proof -
  from assms(4) have "data \<noteq> JNull" by (rule get_prop_Inr_not_null)
  then obtain m where m: "get_prop data (js ''message'') = Inr m"
    using get_prop_not_null by blast
  have none: "ERROR_MESSAGES status = None"
    using assms(3) by (rule ERROR_MESSAGES_ok)
  have "sendDataBundle e st sto =
     \<lparr>w_state = st\<lparr>loading := False\<rparr>, w_storage = sto,
      w_alerts = [(js ''Error'', if truthy m then m else Some (JStr (js ''Unknown error occurred'')))],
      w_posted = Some (Json (requestBody st (clock_reference e))), w_console = []\<rparr>"
    by (rule sendDataBundle_error [OF assms(1,2) is_success_other_status [OF assms(4,5)]
          errorMessage_message [OF none m]])
  with m none show ?thesis by simp
qed

theorem ok_without_success_is_error_witness:
  "w_alerts (sendDataBundle
      \<lparr>started = 1730570000000, until_reference = 0,
        fetched = Response 200 (Some (JObj [(js ''status'', JStr (js ''error'')),
                   (js ''message'', JStr (js ''Order rejected''))])),
        until_timestamp = 120, until_return = 2\<rparr>
      example_form \<lparr>api_key = Some (js ''k1''), transactions = None, failing = False\<rparr>) =
     [(js ''Error'', Some (JStr (js ''Order rejected'')))]
   \<and> w_storage (sendDataBundle
      \<lparr>started = 1730570000000, until_reference = 0,
        fetched = Response 200 (Some (JObj [(js ''status'', JStr (js ''error'')),
                   (js ''message'', JStr (js ''Order rejected''))])),
        until_timestamp = 120, until_return = 2\<rparr>
      example_form \<lparr>api_key = Some (js ''k1''), transactions = None, failing = False\<rparr>) =
     \<lparr>api_key = Some (js ''k1''), transactions = None, failing = False\<rparr>"
proof -
  have h3: "response_ok 200" by (simp add: response_ok_def)
  have h4: "get_prop (JObj [(js ''status'', JStr (js ''error'')),
              (js ''message'', JStr (js ''Order rejected''))]) (js ''status'') =
            Inr (Some (JStr (js ''error'')))"
    by (simp add: js_def)
  have h5: "Some (JStr (js ''error'')) \<noteq> Some (JStr (js ''success''))"
    by (simp add: js_def)
  have m: "get_prop (JObj [(js ''status'', JStr (js ''error'')),
              (js ''message'', JStr (js ''Order rejected''))]) (js ''message'') =
            Inr (Some (JStr (js ''Order rejected'')))"
    by (simp add: js_def)
  have t: "truthy (Some (JStr (js ''Order rejected'')))" by (simp add: js_def)
  from ok_without_success_is_error [OF example_form_valid _ h3 h4 h5,
      where e = "\<lparr>started = 1730570000000, until_reference = 0,
            fetched = Response 200 (Some (JObj [(js ''status'', JStr (js ''error'')),
                       (js ''message'', JStr (js ''Order rejected''))])),
            until_timestamp = 120, until_return = 2\<rparr>"
      and sto = "\<lparr>api_key = Some (js ''k1''), transactions = None, failing = False\<rparr>"]
  show ?thesis using m t by auto
qed

theorem ok_with_empty_message:
  "get_prop (JObj [(js ''status'', JStr (js ''error'')), (js ''message'', JStr [])])
      (js ''message'') = Inr (Some (JStr []))
   \<and> w_alerts (sendDataBundle
        \<lparr>started = 1730570000000, until_reference = 0,
          fetched = Response 200
            (Some (JObj [(js ''status'', JStr (js ''error'')), (js ''message'', JStr [])])),
          until_timestamp = 120, until_return = 2\<rparr>
        example_form \<lparr>api_key = Some (js ''k1''), transactions = None, failing = False\<rparr>) =
       [(js ''Error'', Some (JStr (js ''Unknown error occurred'')))]"
  by code_simp

text \<open>
  Claim C5, as amended. A validated submission takes the success branch exactly when a
  response arrives with a status from 200 to 299 and a body whose \<open>status\<close> field is the
  string \<open>success\<close>. Then \<open>saveTransaction\<close> is called once, with the clock reading
  taken at that point: from a store that answers and holds a readable log this puts
  exactly one new entry at the head of the log, with that reading as its timestamp; from
  a failing store or an unreadable log nothing is appended. If the clock is not set back
  during the submission, the reading is not before the start of the submission and not
  after its end. After the save, if the body's \<open>order_id\<close> and \<open>wallet_balance_after\<close>
  have a string form, the success alert with both is shown and the phone and webhook
  fields are reset to the empty string; if one of them has none, the conversion raises,
  the connectivity alert is shown and the two fields are kept, the entry staying saved.
  In every other outcome the store is left as it was, the two fields are kept and an
  error alert is shown.
\<close>

theorem success_treatment:
  assumes "validateForm st = None"
  shows "(fetched e = Response status (Some data) \<and> response_ok status
          \<and> get_prop data (js ''status'') = Inr (Some (JStr (js ''success''))) \<longrightarrow>
            w_storage (sendDataBundle e st sto) =
              fst (saveTransaction (clock_timestamp e) data sto)
          \<and> get_prop (newTransaction (clock_timestamp e) data) (js ''timestamp'') =
              Inr (Some (JStr (toISOString (clock_timestamp e))))
          \<and> (\<not> failing sto \<and> stored_entries sto = Some xs \<longrightarrow>
               transactions (w_storage (sendDataBundle e st sto)) =
                 Some (Json (JArr (newTransaction (clock_timestamp e) data # take 49 xs))))
          \<and> (failing sto \<or> stored_entries sto = None \<longrightarrow>
               w_storage (sendDataBundle e st sto) = sto)
          \<and> (0 \<le> until_reference e \<and> 0 \<le> until_timestamp e \<and> 0 \<le> until_return e \<longrightarrow>
               started e \<le> clock_timestamp e \<and> clock_timestamp e \<le> clock_return e)
          \<and> (\<exists>order_id balance.
               get_prop data (js ''order_id'') = Inr order_id
             \<and> get_prop data (js ''wallet_balance_after'') = Inr balance
             \<and> (convertible_value order_id \<and> convertible_value balance \<longrightarrow>
                  (\<exists>msg. w_alerts (sendDataBundle e st sto) =
                     [(js ''Success!'', Some (JStr msg))])
                \<and> phone (w_state (sendDataBundle e st sto)) = []
                \<and> webhookUrl (w_state (sendDataBundle e st sto)) = [])
             \<and> (\<not> (convertible_value order_id \<and> convertible_value balance) \<longrightarrow>
                  w_alerts (sendDataBundle e st sto) =
                    [(js ''Error'', Some (JStr (js
                       ''Network error. Please check your connection and try again.'')))]
                \<and> phone (w_state (sendDataBundle e st sto)) = phone st
                \<and> webhookUrl (w_state (sendDataBundle e st sto)) = webhookUrl st)))
       \<and> (\<not> (\<exists>status data. fetched e = Response status (Some data) \<and> response_ok status
                 \<and> get_prop data (js ''status'') = Inr (Some (JStr (js ''success'')))) \<longrightarrow>
            (\<exists>m. w_alerts (sendDataBundle e st sto) = [(js ''Error'', m)])
          \<and> phone (w_state (sendDataBundle e st sto)) = phone st
          \<and> webhookUrl (w_state (sendDataBundle e st sto)) = webhookUrl st
          \<and> w_storage (sendDataBundle e st sto) = sto)"
proof -
  let ?r = "sendDataBundle e st sto"
  let ?save = "saveTransaction (clock_timestamp e) data sto"
  have yes: "w_storage ?r = fst ?save
          \<and> (\<not> failing sto \<and> stored_entries sto = Some xs \<longrightarrow>
               transactions (w_storage ?r) =
                 Some (Json (JArr (newTransaction (clock_timestamp e) data # take 49 xs))))
          \<and> (failing sto \<or> stored_entries sto = None \<longrightarrow> w_storage ?r = sto)
          \<and> (\<exists>order_id balance.
               get_prop data (js ''order_id'') = Inr order_id
             \<and> get_prop data (js ''wallet_balance_after'') = Inr balance
             \<and> (convertible_value order_id \<and> convertible_value balance \<longrightarrow>
                  (\<exists>msg. w_alerts ?r = [(js ''Success!'', Some (JStr msg))])
                \<and> phone (w_state ?r) = []
                \<and> webhookUrl (w_state ?r) = [])
             \<and> (\<not> (convertible_value order_id \<and> convertible_value balance) \<longrightarrow>
                  w_alerts ?r =
                    [(js ''Error'', Some (JStr (js
                       ''Network error. Please check your connection and try again.'')))]
                \<and> phone (w_state ?r) = phone st
                \<and> webhookUrl (w_state ?r) = webhookUrl st))"
    if f: "fetched e = Response status (Some data)" and ok: "response_ok status"
      and s: "get_prop data (js ''status'') = Inr (Some (JStr (js ''success'')))"
  proof -
    from ok s have t: "is_success status data = Inr True" by (simp add: is_success_iff)
    from s have "data \<noteq> JNull" by (rule get_prop_Inr_not_null)
    then obtain order_id balance
      where o: "get_prop data (js ''order_id'') = Inr order_id"
        and b: "get_prop data (js ''wallet_balance_after'') = Inr balance"
      using get_prop_not_null by blast
    have store: "w_storage ?r = fst ?save"
    proof (cases "success_message data")
      case (Inl err)
      then show ?thesis by (simp add: sendDataBundle_success_raised [OF assms f t])
    next
      case (Inr msg)
      then show ?thesis by (simp add: sendDataBundle_success [OF assms f t])
    qed
    have readable: "transactions (w_storage ?r) =
        Some (Json (JArr (newTransaction (clock_timestamp e) data # take 49 xs)))"
      if "\<not> failing sto" "stored_entries sto = Some xs"
      using that by (simp add: store saveTransaction_readable)
    have unreadable: "w_storage ?r = sto" if "failing sto \<or> stored_entries sto = None"
      using that
      by (cases "failing sto")
         (auto simp: store saveTransaction_failing saveTransaction_unreadable)
    have shown: "\<exists>msg. w_alerts ?r = [(js ''Success!'', Some (JStr msg))]"
      and reset: "phone (w_state ?r) = []" "webhookUrl (w_state ?r) = []"
      if c: "convertible_value order_id \<and> convertible_value balance"
    proof -
      from c obtain ot bt where ot: "template_value order_id = Inr ot"
        and bt: "template_value balance = Inr bt"
        using template_value_convertible by blast
      note r = sendDataBundle_success [OF assms f t success_message_text [OF o b ot bt]]
      show "\<exists>msg. w_alerts ?r = [(js ''Success!'', Some (JStr msg))]"
        by (simp add: r)
      show "phone (w_state ?r) = []" "webhookUrl (w_state ?r) = []"
        by (simp_all add: r)
    qed
    have raised: "w_alerts ?r =
          [(js ''Error'', Some (JStr (js
             ''Network error. Please check your connection and try again.'')))]
        \<and> phone (w_state ?r) = phone st \<and> webhookUrl (w_state ?r) = webhookUrl st"
      if n: "\<not> (convertible_value order_id \<and> convertible_value balance)"
      by (simp add: sendDataBundle_success_raised
            [OF assms f t success_message_raises [OF o b n]])
    from store readable unreadable o b shown reset raised show ?thesis by blast
  qed
  have no: "(\<exists>m. w_alerts ?r = [(js ''Error'', m)])
          \<and> phone (w_state ?r) = phone st
          \<and> webhookUrl (w_state ?r) = webhookUrl st
          \<and> w_storage ?r = sto"
    if n: "\<not> (\<exists>status data. fetched e = Response status (Some data) \<and> response_ok status
                 \<and> get_prop data (js ''status'') = Inr (Some (JStr (js ''success''))))"
  proof -
    from n have "\<not> (\<exists>status data. fetched e = Response status (Some data)
                 \<and> is_success status data = Inr True)"
      by (simp add: is_success_iff)
    from sendDataBundle_not_success [OF assms this] show ?thesis by auto
  qed
  from yes no clock_order [of e] newTransaction_timestamp show ?thesis by blast
qed

theorem success_treatment_witness:
  "transactions (w_storage (sendDataBundle
      \<lparr>started = 1730570000000, until_reference = 0,
        fetched = Response 200 (Some (JObj [(js ''status'', JStr (js ''success'')),
                   (js ''order_id'', JNum 7)])),
        until_timestamp = 123, until_return = 2\<rparr>
      example_form \<lparr>api_key = Some (js ''k1''), transactions = None, failing = False\<rparr>)) =
     Some (Json (JArr [JObj [(js ''status'', JStr (js ''success'')), (js ''order_id'', JNum 7),
                             (js ''timestamp'', JStr (js ''2024-11-02T17:53:20.123Z''))]]))
   \<and> (\<exists>msg. w_alerts (sendDataBundle
      \<lparr>started = 1730570000000, until_reference = 0,
        fetched = Response 200 (Some (JObj [(js ''status'', JStr (js ''success'')),
                   (js ''order_id'', JNum 7)])),
        until_timestamp = 123, until_return = 2\<rparr>
      example_form \<lparr>api_key = Some (js ''k1''), transactions = None, failing = False\<rparr>) =
     [(js ''Success!'', Some (JStr msg))])
   \<and> phone (w_state (sendDataBundle
      \<lparr>started = 1730570000000, until_reference = 0,
        fetched = Response 200 (Some (JObj [(js ''status'', JStr (js ''success'')),
                   (js ''order_id'', JNum 7)])),
        until_timestamp = 123, until_return = 2\<rparr>
      example_form \<lparr>api_key = Some (js ''k1''), transactions = None, failing = False\<rparr>)) = []
   \<and> started \<lparr>started = 1730570000000, until_reference = 0,
        fetched = Response 200 (Some (JObj [(js ''status'', JStr (js ''success'')),
                   (js ''order_id'', JNum 7)])),
        until_timestamp = 123, until_return = 2\<rparr>
      \<le> clock_timestamp \<lparr>started = 1730570000000, until_reference = 0,
        fetched = Response 200 (Some (JObj [(js ''status'', JStr (js ''success'')),
                   (js ''order_id'', JNum 7)])),
        until_timestamp = 123, until_return = 2\<rparr>
   \<and> clock_timestamp \<lparr>started = 1730570000000, until_reference = 0,
        fetched = Response 200 (Some (JObj [(js ''status'', JStr (js ''success'')),
                   (js ''order_id'', JNum 7)])),
        until_timestamp = 123, until_return = 2\<rparr>
      \<le> clock_return \<lparr>started = 1730570000000, until_reference = 0,
        fetched = Response 200 (Some (JObj [(js ''status'', JStr (js ''success'')),
                   (js ''order_id'', JNum 7)])),
        until_timestamp = 123, until_return = 2\<rparr>"
proof -
  let ?data = "JObj [(js ''status'', JStr (js ''success'')), (js ''order_id'', JNum 7)]"
  let ?e = "\<lparr>started = 1730570000000, until_reference = 0, fetched = Response 200 (Some ?data),
             until_timestamp = 123, until_return = 2\<rparr>"
  let ?sto = "\<lparr>api_key = Some (js ''k1''), transactions = None, failing = False\<rparr>"
  let ?r = "sendDataBundle ?e example_form ?sto"
  have f: "fetched ?e = Response 200 (Some ?data)" by simp
  have ok: "response_ok 200" by (simp add: response_ok_def)
  have s: "get_prop ?data (js ''status'') = Inr (Some (JStr (js ''success'')))" by simp
  have c: "\<not> failing ?sto \<and> stored_entries ?sto = Some []" by simp
  have k: "0 \<le> until_reference ?e \<and> 0 \<le> until_timestamp ?e \<and> 0 \<le> until_return ?e"
    by simp
  have n: "newTransaction (clock_timestamp ?e) ?data =
      JObj [(js ''status'', JStr (js ''success'')), (js ''order_id'', JNum 7),
            (js ''timestamp'', JStr (js ''2024-11-02T17:53:20.123Z''))]"
    by code_simp
  have o: "get_prop ?data (js ''order_id'') = Inr (Some (JNum 7))" by code_simp
  have b: "get_prop ?data (js ''wallet_balance_after'') = Inr None" by code_simp
  have cv: "convertible_value (Some (JNum 7)) \<and> convertible_value None"
    by (simp add: convertible_value_def)
  note t = success_treatment [OF example_form_valid, where e = ?e and status = 200
      and data = ?data and sto = ?sto and xs = "[]"]
  from t f ok s c have "transactions (w_storage ?r) =
      Some (Json (JArr (newTransaction (clock_timestamp ?e) ?data # take 49 [])))"
    by blast
  then have first: "transactions (w_storage ?r) =
      Some (Json (JArr [JObj [(js ''status'', JStr (js ''success'')), (js ''order_id'', JNum 7),
                             (js ''timestamp'', JStr (js ''2024-11-02T17:53:20.123Z''))]]))"
    by (simp only: n take.simps)
  from t f ok s o b cv
  have second: "\<exists>msg. w_alerts ?r = [(js ''Success!'', Some (JStr msg))]"
    and third: "phone (w_state ?r) = []"
    by auto
  from t f ok s k
  have fourth: "started ?e \<le> clock_timestamp ?e \<and> clock_timestamp ?e \<le> clock_return ?e"
    by blast
  from first second third fourth show ?thesis by blast
qed

theorem success_with_malformed_log:
  "w_alerts (sendDataBundle
      \<lparr>started = 1730570000000, until_reference = 0,
        fetched = Response 200 (Some (JObj [(js ''status'', JStr (js ''success'')),
                   (js ''order_id'', JNum 7)])),
        until_timestamp = 123, until_return = 2\<rparr>
      example_form
      \<lparr>api_key = Some (js ''k1''), transactions = Some (NotJson (js ''{corrupt'')),
        failing = False\<rparr>) =
     [(js ''Success!'', Some (JStr (js ''Data bundle sent successfully!'' @ [0x0A]
        @ js ''Order ID: 7'' @ [0x0A] @ js ''Balance: undefined credits'')))]
   \<and> transactions (w_storage (sendDataBundle
      \<lparr>started = 1730570000000, until_reference = 0,
        fetched = Response 200 (Some (JObj [(js ''status'', JStr (js ''success'')),
                   (js ''order_id'', JNum 7)])),
        until_timestamp = 123, until_return = 2\<rparr>
      example_form
      \<lparr>api_key = Some (js ''k1''), transactions = Some (NotJson (js ''{corrupt'')),
        failing = False\<rparr>)) = Some (NotJson (js ''{corrupt''))"
  by code_simp

text \<open>
  A body that passes the success test and whose \<open>order_id\<close> is an object with an own
  \<open>toString\<close> property: the entry is saved, then the template literal raises, the
  connectivity alert is shown and the phone is kept.
\<close>

lemma success_with_unprintable_order_id:
  "sendDataBundle
      \<lparr>started = 1730570000000, until_reference = 0,
        fetched = Response 200 (Some (JObj [(js ''status'', JStr (js ''success'')),
                   (js ''order_id'', JObj [(js ''toString'', JNum 1)])])),
        until_timestamp = 123, until_return = 2\<rparr>
      example_form \<lparr>api_key = Some (js ''k1''), transactions = None, failing = False\<rparr> =
   \<lparr>w_state = example_form,
     w_storage = \<lparr>api_key = Some (js ''k1''),
       transactions = Some (Json (JArr
         [JObj [(js ''status'', JStr (js ''success'')),
                (js ''order_id'', JObj [(js ''toString'', JNum 1)]),
                (js ''timestamp'', JStr (js ''2024-11-02T17:53:20.123Z''))]])),
       failing = False\<rparr>,
     w_alerts = [(js ''Error'', Some (JStr (js
        ''Network error. Please check your connection and try again.'')))],
     w_posted = Some (Json (JObj
       [(js ''api_key'', JStr (js ''k1'')),
        (js ''phone'', JStr (js ''0543482280'')),
        (js ''size_mb'', JNum 1024),
        (js ''network'', JStr (js ''mtn'')),
        (js ''reference'', JStr (js ''TXN_1730570000000''))])),
     w_console = []\<rparr>"
  by code_simp

section \<open>Decimal numerals and the request\<close>

lemma digit_unit_uint: "0 \<le> d \<Longrightarrow> d < 10 \<Longrightarrow> uint (digit_unit d) = 48 + d"
  by (simp add: digit_unit_def uint_word_ariths uint_word_of_int)

lemma digit_unit_inj:
  assumes "0 \<le> a" "a < 10" "0 \<le> b" "b < 10" "digit_unit a = digit_unit b"
  shows "a = b"
proof -
  from assms(5) have "uint (digit_unit a) = uint (digit_unit b)" by simp
  with assms(1-4) show ?thesis by (simp add: digit_unit_uint)
qed

lemma digit_unit_isDigit: "0 \<le> d \<Longrightarrow> d < 10 \<Longrightarrow> isDigit (digit_unit d)"
  by (simp add: isDigit_def word_le_def digit_unit_uint)

lemma decimal_small: "n < 10 \<Longrightarrow> decimal n = [digit_unit n]"
  by (subst decimal.simps) simp

lemma decimal_large:
  "\<not> n < 10 \<Longrightarrow> decimal n = decimal (n div 10) @ [digit_unit (n mod 10)]"
  by (subst decimal.simps) simp

lemma decimal_not_Nil: "decimal n \<noteq> []"
  by (cases "n < 10") (simp_all add: decimal_small decimal_large)

lemma decimal_digits: "0 \<le> n \<Longrightarrow> c \<in> set (decimal n) \<Longrightarrow> isDigit c"
proof (induction n rule: decimal.induct)
  case (1 n)
  show ?case
  proof (cases "n < 10")
    case True
    with "1.prems" show ?thesis by (auto simp: decimal_small digit_unit_isDigit)
  next
    case False
    with "1.prems" "1.IH" show ?thesis
      by (auto simp: decimal_large digit_unit_isDigit)
  qed
qed

lemma decimal_inj: "0 \<le> m \<Longrightarrow> 0 \<le> n \<Longrightarrow> decimal m = decimal n \<Longrightarrow> m = n"
proof (induction m arbitrary: n rule: decimal.induct)
  case (1 m)
  show ?case
  proof (cases "m < 10")
    case m: True
    show ?thesis
    proof (cases "n < 10")
      case True
      with m "1.prems" show ?thesis by (auto simp: decimal_small dest: digit_unit_inj)
    next
      case False
      with m "1.prems"(3) decimal_not_Nil [of "n div 10"] show ?thesis
        by (simp add: decimal_small decimal_large Cons_eq_append_conv)
    qed
  next
    case m: False
    show ?thesis
    proof (cases "n < 10")
      case True
      with m "1.prems"(3) decimal_not_Nil [of "m div 10"] show ?thesis
        by (simp add: decimal_small decimal_large append_eq_Cons_conv)
    next
      case False
      with m "1.prems"(3)
      have q: "decimal (m div 10) = decimal (n div 10)"
        and r: "digit_unit (m mod 10) = digit_unit (n mod 10)"
        by (simp_all add: decimal_large)
      from "1.IH" [OF m _ _ q] "1.prems" have "m div 10 = n div 10" by simp
      moreover have "m mod 10 = n mod 10"
        by (rule digit_unit_inj [OF _ _ _ _ r]) simp_all
      ultimately show ?thesis by (metis div_mult_mod_eq)
    qed
  qed
qed

lemma decimal_no_minus: "0 \<le> n \<Longrightarrow> decimal n \<noteq> 0x2D # cs"
proof
  assume "0 \<le> n" and "decimal n = 0x2D # cs"
  then have "isDigit 0x2D" using decimal_digits [of n "0x2D"] by simp
  then show False by (simp add: isDigit_def)
qed

lemma number_to_string_inj: "number_to_string a = number_to_string b \<longleftrightarrow> a = b"
proof
  assume eq: "number_to_string a = number_to_string b"
  consider "a < 0" "b < 0" | "a < 0" "0 \<le> b" | "0 \<le> a" "b < 0" | "0 \<le> a" "0 \<le> b"
    by linarith
  then show "a = b"
  proof cases
    case 1
    with eq have "decimal (- a) = decimal (- b)" by (simp add: number_to_string_def)
    with 1 have "- a = - b" by (intro decimal_inj) simp_all
    then show ?thesis by simp
  next
    case 2
    with eq decimal_no_minus [of b "decimal (- a)"] show ?thesis
      by (simp add: number_to_string_def)
  next
    case 3
    with eq decimal_no_minus [of a "decimal (- b)"] show ?thesis
      by (simp add: number_to_string_def)
  next
    case 4
    with eq show ?thesis by (simp add: number_to_string_def decimal_inj)
  qed
qed simp

lemma toLowerCase_network:
  "toLowerCase (network_name n) = (case n of MTN \<Rightarrow> js ''mtn'' | Telecel \<Rightarrow> js ''telecel'')"
  by (cases n) (simp_all add: toLowerCase_def js_def)

lemma requestBody_explicit:
  "requestBody st now = JObj
     ([(js ''api_key'', JStr (apiKey st)),
       (js ''phone'', JStr (filter (\<lambda>c. \<not> isWhiteSpace c) (phone st))),
       (js ''size_mb'', JNum (selectedSize st)),
       (js ''network'', JStr (case network st of MTN \<Rightarrow> js ''mtn'' | Telecel \<Rightarrow> js ''telecel'')),
       (js ''reference'', JStr (js ''TXN_'' @ number_to_string now))]
      @ (if webhookUrl st = [] then [] else [(js ''webhook_url'', JStr (webhookUrl st))]))"
  by (simp add: requestBody_def object_literal_def and_then_def replace_ws_filter
        toLowerCase_network js_def)

lemma sendDataBundle_try_posted: "w_posted (fst (sendDataBundle_try e w)) = w_posted w"
  by (simp add: sendDataBundle_try_def Let_def
      split: fetch_result.splits option.splits sum.splits bool.splits prod.splits)

lemma sendDataBundle_posted:
  "validateForm st = None \<Longrightarrow>
   w_posted (sendDataBundle e st sto) = Some (Json (requestBody st (clock_reference e)))"
  using sendDataBundle_try_posted
    [of e "\<lparr>w_state = st\<lparr>loading := True\<rparr>, w_storage = sto, w_alerts = [],
            w_posted = Some (JSON_stringify (requestBody st (clock_reference e))),
            w_console = []\<rparr>"]
  by (auto simp: sendDataBundle_def Let_def JSON_stringify_def split: prod.splits option.splits)

text \<open>
  Claim C6. For a validated submission the body posted is the object with exactly these
  properties: \<open>api_key\<close>, the credential; \<open>phone\<close>, the phone without its whitespace;
  \<open>size_mb\<close>, the selected size; \<open>network\<close>, the network's name in lower case;
  \<open>reference\<close>, \<open>TXN_\<close> followed by the clock reading; and \<open>webhook_url\<close>, present
  only when the webhook input is not empty.
\<close>

theorem posted_body_fields:
  assumes "validateForm st = None"
  shows "w_posted (sendDataBundle e st sto) = Some (Json (JObj
     ([(js ''api_key'', JStr (apiKey st)),
       (js ''phone'', JStr (filter (\<lambda>c. \<not> isWhiteSpace c) (phone st))),
       (js ''size_mb'', JNum (selectedSize st)),
       (js ''network'', JStr (case network st of MTN \<Rightarrow> js ''mtn'' | Telecel \<Rightarrow> js ''telecel'')),
       (js ''reference'', JStr (js ''TXN_'' @ number_to_string (clock_reference e)))]
      @ (if webhookUrl st = [] then [] else [(js ''webhook_url'', JStr (webhookUrl st))]))))"
  by (simp only: sendDataBundle_posted [OF assms] requestBody_explicit)

theorem posted_body_fields_witness:
  "w_posted (sendDataBundle
      \<lparr>started = 1730570000000, until_reference = 0, fetched = Rejected,
        until_timestamp = 120, until_return = 2\<rparr>
      example_form \<lparr>api_key = Some (js ''k1''), transactions = None, failing = False\<rparr>) =
     Some (Json (JObj
       [(js ''api_key'', JStr (js ''k1'')),
        (js ''phone'', JStr (js ''0543482280'')),
        (js ''size_mb'', JNum 1024),
        (js ''network'', JStr (js ''mtn'')),
        (js ''reference'', JStr (js ''TXN_1730570000000''))]))"
proof -
  let ?e = "\<lparr>started = 1730570000000, until_reference = 0, fetched = Rejected,
        until_timestamp = 120, until_return = 2\<rparr>"
  let ?sto = "\<lparr>api_key = Some (js ''k1''), transactions = None, failing = False\<rparr>"
  have r: "js ''TXN_'' @ number_to_string (clock_reference ?e) = js ''TXN_1730570000000''"
    by code_simp
  have p: "filter (\<lambda>c. \<not> isWhiteSpace c) (phone example_form) = js ''0543482280''"
    by code_simp
  have rest: "apiKey example_form = js ''k1''" "selectedSize example_form = 1024"
    "(case network example_form of MTN \<Rightarrow> js ''mtn'' | Telecel \<Rightarrow> js ''telecel'') = js ''mtn''"
    "(if webhookUrl example_form = [] then []
      else [(js ''webhook_url'', JStr (webhookUrl example_form))]) = []"
    by simp_all
  from posted_body_fields [OF example_form_valid, of ?e ?sto]
  show ?thesis by (simp only: r p rest append_Nil2)
qed

text \<open>
  Claim C7, as amended. The reference of a submission is \<open>TXN_\<close> followed by the
  decimal numeral of the clock reading taken when the request is built: two submissions
  have the same reference exactly when they read the same millisecond.
\<close>

theorem reference_equal_iff_same_reading:
  "get_prop (requestBody st now) (js ''reference'') =
     Inr (Some (JStr (js ''TXN_'' @ number_to_string now)))
   \<and> (get_prop (requestBody st1 now1) (js ''reference'') =
        get_prop (requestBody st2 now2) (js ''reference'') \<longleftrightarrow> now1 = now2)"
proof -
  have r: "get_prop (requestBody st now) (js ''reference'') =
      Inr (Some (JStr (js ''TXN_'' @ number_to_string now)))" for st now
    by (simp add: requestBody_explicit) (simp add: js_def)
  show ?thesis by (simp add: r number_to_string_inj)
qed

theorem same_reading_same_reference:
  "requestBody example_form 1730570000123
     \<noteq> requestBody (example_form\<lparr>phone := js ''0201234567''\<rparr>) 1730570000123
   \<and> get_prop (requestBody example_form 1730570000123) (js ''reference'') =
     get_prop (requestBody (example_form\<lparr>phone := js ''0201234567''\<rparr>) 1730570000123)
       (js ''reference'')"
  by (simp add: requestBody_explicit) (simp add: js_def isWhiteSpace_def)

section \<open>The stored credential\<close>

lemma trim_decomposition:
  "\<exists>before after. v = before @ trim v @ after
     \<and> (\<forall>c\<in>set before. isWhiteSpace c) \<and> (\<forall>c\<in>set after. isWhiteSpace c)"
proof -
  let ?t = "dropWhile isWhiteSpace v"
  have "v = takeWhile isWhiteSpace v @ ?t" by simp
  moreover have "rev ?t = takeWhile isWhiteSpace (rev ?t) @ dropWhile isWhiteSpace (rev ?t)"
    by simp
  then have "?t = trim v @ rev (takeWhile isWhiteSpace (rev ?t))"
    by (metis trim_def rev_append rev_rev_ident)
  ultimately have "v = takeWhile isWhiteSpace v @ trim v @ rev (takeWhile isWhiteSpace (rev ?t))"
    by simp
  moreover have "\<forall>c\<in>set (takeWhile isWhiteSpace v). isWhiteSpace c"
    by (auto dest: set_takeWhileD)
  moreover have "\<forall>c\<in>set (rev (takeWhile isWhiteSpace (rev ?t))). isWhiteSpace c"
    by (auto dest: set_takeWhileD)
  ultimately show ?thesis by blast
qed

lemma trim_ends:
  assumes ne: "trim v \<noteq> []"
  shows "\<not> isWhiteSpace (hd (trim v)) \<and> \<not> isWhiteSpace (last (trim v))"
proof -
  define t where "t = dropWhile isWhiteSpace v"
  define u where "u = dropWhile isWhiteSpace (rev t)"
  have tr: "trim v = rev u" by (simp add: trim_def t_def u_def)
  with ne have u: "u \<noteq> []" by simp
  have split: "rev t = takeWhile isWhiteSpace (rev t) @ u" by (simp add: u_def)
  with u have t: "t \<noteq> []" by (cases t) auto
  have "\<not> isWhiteSpace (hd u)"
    using u unfolding u_def by (rule hd_dropWhile)
  then have last: "\<not> isWhiteSpace (last (trim v))"
    using u by (simp add: tr last_rev)
  have "\<not> isWhiteSpace (hd t)"
    using t unfolding t_def by (rule hd_dropWhile)
  moreover have "last (rev t) = last u"
    using u by (subst split) simp
  ultimately have "\<not> isWhiteSpace (hd (trim v))"
    using t u by (simp add: tr hd_rev last_rev)
  with last show ?thesis by simp
qed

lemma saveApiKey_blank:
  "trim (tempApiKey st) = [] \<Longrightarrow>
   saveApiKey st sto = (st, sto, [(js ''Error'', Some (JStr (js ''Please enter an API key'')))])"
  by (simp add: saveApiKey_def)

lemma saveApiKey_stored:
  "trim (tempApiKey st) \<noteq> [] \<Longrightarrow> \<not> failing sto \<Longrightarrow>
   saveApiKey st sto =
     (st\<lparr>settings_apiKey := trim (tempApiKey st)\<rparr>,
      sto\<lparr>api_key := Some (trim (tempApiKey st))\<rparr>,
      [(js ''Success'', Some (JStr (js ''API key saved successfully'')))])"
  by (simp add: saveApiKey_def setItem_api_key_def)

lemma saveApiKey_rejected:
  "trim (tempApiKey st) \<noteq> [] \<Longrightarrow> failing sto \<Longrightarrow>
   saveApiKey st sto = (st, sto, [(js ''Error'', Some (JStr (js ''Failed to save API key'')))])"
  by (simp add: saveApiKey_def setItem_api_key_def)

lemma loadApiKey_settings_stored:
  "\<not> failing sto \<Longrightarrow> api_key sto = Some k \<Longrightarrow> k \<noteq> [] \<Longrightarrow>
   loadApiKey_settings st sto = (st\<lparr>settings_apiKey := k, tempApiKey := k\<rparr>, [])"
  by (simp add: loadApiKey_settings_def getItem_api_key_def)

lemma loadApiKey_send_stored:
  "\<not> failing sto \<Longrightarrow> api_key sto = Some k \<Longrightarrow> k \<noteq> [] \<Longrightarrow>
   loadApiKey_send st sto = (st\<lparr>apiKey := k\<rparr>, [])"
  by (simp add: loadApiKey_send_def getItem_api_key_def)

lemma clearAllData_storage:
  "fst (snd (clearAllData pressed st sto)) =
     (if pressed = Destructive \<and> \<not> failing sto
      then sto\<lparr>api_key := None, transactions := None\<rparr> else sto)"
  by (cases pressed) (simp_all add: clearAllData_def multiRemove_api_key_transactions_def)

lemma clearApiKey_storage:
  "fst (snd (clearApiKey pressed st sto)) =
     (if pressed = Destructive \<and> \<not> failing sto then sto\<lparr>api_key := None\<rparr> else sto)"
  by (cases pressed) (simp_all add: clearApiKey_def removeItem_api_key_def)

text \<open>
  Claim C9. Saving a value that is empty or all whitespace is refused with the
  validation alert and changes neither the store nor the screen. Saving any other value
  to a store that answers overwrites the stored credential with the value without its
  leading and trailing whitespace, leaves the log alone, and a load that follows
  returns that credential, on the settings screen and on the send screen alike. When
  the store rejects the write, the failure is alerted and nothing changes.
\<close>

theorem saveApiKey_then_load:
  "((\<forall>c\<in>set (tempApiKey st). isWhiteSpace c) \<longrightarrow>
      saveApiKey st sto =
        (st, sto, [(js ''Error'', Some (JStr (js ''Please enter an API key'')))]))
 \<and> ((\<exists>c\<in>set (tempApiKey st). \<not> isWhiteSpace c) \<and> \<not> failing sto \<longrightarrow>
      fst (snd (saveApiKey st sto)) = sto\<lparr>api_key := Some (trim (tempApiKey st))\<rparr>
    \<and> fst (loadApiKey_settings st' (fst (snd (saveApiKey st sto)))) =
        st'\<lparr>settings_apiKey := trim (tempApiKey st), tempApiKey := trim (tempApiKey st)\<rparr>
    \<and> fst (loadApiKey_send fs (fst (snd (saveApiKey st sto)))) =
        fs\<lparr>apiKey := trim (tempApiKey st)\<rparr>
    \<and> (\<exists>before after. tempApiKey st = before @ trim (tempApiKey st) @ after
          \<and> (\<forall>c\<in>set before. isWhiteSpace c) \<and> (\<forall>c\<in>set after. isWhiteSpace c))
    \<and> \<not> isWhiteSpace (hd (trim (tempApiKey st)))
    \<and> \<not> isWhiteSpace (last (trim (tempApiKey st))))
 \<and> ((\<exists>c\<in>set (tempApiKey st). \<not> isWhiteSpace c) \<and> failing sto \<longrightarrow>
      saveApiKey st sto =
        (st, sto, [(js ''Error'', Some (JStr (js ''Failed to save API key'')))]))"
proof -
  have a: "(\<forall>c\<in>set (tempApiKey st). isWhiteSpace c) \<longrightarrow>
      saveApiKey st sto =
        (st, sto, [(js ''Error'', Some (JStr (js ''Please enter an API key'')))])"
    by (simp add: saveApiKey_blank trim_Nil_iff)
  have b: "fst (snd (saveApiKey st sto)) = sto\<lparr>api_key := Some (trim (tempApiKey st))\<rparr>
    \<and> fst (loadApiKey_settings st' (fst (snd (saveApiKey st sto)))) =
        st'\<lparr>settings_apiKey := trim (tempApiKey st), tempApiKey := trim (tempApiKey st)\<rparr>
    \<and> fst (loadApiKey_send fs (fst (snd (saveApiKey st sto)))) =
        fs\<lparr>apiKey := trim (tempApiKey st)\<rparr>
    \<and> \<not> isWhiteSpace (hd (trim (tempApiKey st)))
    \<and> \<not> isWhiteSpace (last (trim (tempApiKey st)))"
    if "\<exists>c\<in>set (tempApiKey st). \<not> isWhiteSpace c" and ok: "\<not> failing sto"
  proof -
    from that(1) have ne: "trim (tempApiKey st) \<noteq> []" by (simp add: trim_Nil_iff)
    show ?thesis
      using ne ok trim_ends [OF ne]
      by (simp add: saveApiKey_stored loadApiKey_settings_stored loadApiKey_send_stored)
  qed
  have c: "(\<exists>c\<in>set (tempApiKey st). \<not> isWhiteSpace c) \<and> failing sto \<longrightarrow>
      saveApiKey st sto =
        (st, sto, [(js ''Error'', Some (JStr (js ''Failed to save API key'')))])"
    by (simp add: saveApiKey_rejected trim_Nil_iff)
  from a b c trim_decomposition [of "tempApiKey st"] show ?thesis by blast
qed

theorem saveApiKey_then_load_witness:
  "fst (snd (saveApiKey \<lparr>settings_apiKey = [], tempApiKey = js ''  sk_live_42 ''\<rparr>
      \<lparr>api_key = Some (js ''old''), transactions = None, failing = False\<rparr>)) =
     \<lparr>api_key = Some (js ''sk_live_42''), transactions = None, failing = False\<rparr>
   \<and> fst (loadApiKey_settings \<lparr>settings_apiKey = [], tempApiKey = []\<rparr>
        (fst (snd (saveApiKey \<lparr>settings_apiKey = [], tempApiKey = js ''  sk_live_42 ''\<rparr>
          \<lparr>api_key = Some (js ''old''), transactions = None, failing = False\<rparr>)))) =
     \<lparr>settings_apiKey = js ''sk_live_42'', tempApiKey = js ''sk_live_42''\<rparr>"
proof -
  let ?st = "\<lparr>settings_apiKey = [], tempApiKey = js ''  sk_live_42 ''\<rparr>"
  let ?sto = "\<lparr>api_key = Some (js ''old''), transactions = None, failing = False\<rparr>"
  let ?st' = "\<lparr>settings_apiKey = [], tempApiKey = []\<rparr>"
  have t: "trim (tempApiKey ?st) = js ''sk_live_42''" by code_simp
  have w: "(\<exists>c\<in>set (tempApiKey ?st). \<not> isWhiteSpace c) \<and> \<not> failing ?sto"
    by (simp add: js_def isWhiteSpace_def)
  note s = saveApiKey_then_load [of ?st ?sto ?st' example_form]
  from s w have "fst (snd (saveApiKey ?st ?sto)) = ?sto\<lparr>api_key := Some (trim (tempApiKey ?st))\<rparr>"
    and "fst (loadApiKey_settings ?st' (fst (snd (saveApiKey ?st ?sto)))) =
        ?st'\<lparr>settings_apiKey := trim (tempApiKey ?st), tempApiKey := trim (tempApiKey ?st)\<rparr>"
    by blast+
  then show ?thesis by (simp only: t) simp
qed

text \<open>
  Claim C10. Clearing the credential never changes the persisted log, whatever the
  store holds and whichever button is pressed; when the removal is confirmed on a store
  that answers, the credential key is removed and that is the only change.
\<close>

theorem clearApiKey_keeps_log:
  "transactions (fst (snd (clearApiKey pressed st sto))) = transactions sto
 \<and> (pressed = Destructive \<and> \<not> failing sto \<longrightarrow>
      fst (snd (clearApiKey pressed st sto)) = sto\<lparr>api_key := None\<rparr>)"
  by (simp add: clearApiKey_storage)

theorem clearApiKey_keeps_log_witness:
  "fst (snd (clearApiKey Destructive \<lparr>settings_apiKey = js ''k1'', tempApiKey = js ''k1''\<rparr>
      \<lparr>api_key = Some (js ''k1''),
        transactions = Some (Json (JArr [JObj [(js ''order_id'', JNum 7)]])),
        failing = False\<rparr>)) =
     \<lparr>api_key = None, transactions = Some (Json (JArr [JObj [(js ''order_id'', JNum 7)]])),
      failing = False\<rparr>"
  using clearApiKey_keeps_log [of Destructive
      "\<lparr>settings_apiKey = js ''k1'', tempApiKey = js ''k1''\<rparr>"
      "\<lparr>api_key = Some (js ''k1''),
        transactions = Some (Json (JArr [JObj [(js ''order_id'', JNum 7)]])),
        failing = False\<rparr>"]
  by simp

end
